theory Spec2Isabelle
  imports Complex_Main "HOL-Library.Word" "HOL-Library.Sublist"
begin

section \<open>hekametrics: data model\<close>

text \<open>
  The development follows \<^verbatim>\<open>hekalogger.go\<close>. The Go struct \<^verbatim>\<open>HekaClient\<close> is a record,
  \<^verbatim>\<open>error\<close> values and panics are datatypes, and every call that leaves the package
  (the URL parser, the operating system, the Heka client library, the network) is either a
  field of the record \<open>boundary\<close> or an event appended to a trace.

  A \<^verbatim>\<open>float64\<close> is never inspected or computed with by this package, it is only carried from
  a metric to a message field. It is the type parameter \<open>'f\<close> throughout.
\<close>

type_synonym int64 = "64 word"
type_synonym int32 = "32 word"
type_synonym bytes = "8 word list"

datatype error =
    External string
  | SchemeNotSupported string

datatype panic =
    NilSender
  | CloseOfNilChannel
  | CloseOfClosedChannel

record URL =
  Scheme :: string
  Host :: string

text \<open>The three states of a Go channel on which nothing is ever sent.\<close>

datatype chan = ChanNil | ChanOpen | ChanClosed

text \<open>
  \<^verbatim>\<open>hc.sender\<close> is \<open>None\<close> for \<^verbatim>\<open>nil\<close>; a live sender is named by the number of the
  \<^verbatim>\<open>NewNetworkSender\<close> call that made it. Two fields of the struct are not in the record:
  \<^verbatim>\<open>client\<close>, which the package neither assigns nor reads, and \<^verbatim>\<open>encoder\<close>, assigned once at
  construction and used only through \<^verbatim>\<open>EncodeMessageStream\<close>, a collaborator below.
\<close>

record HekaClient =
  pid :: int32
  hostname :: string
  msgtype :: string
  sender :: "nat option"
  connect_s :: URL
  stop :: chan

datatype 'f FieldValue = ValueInteger int64 | ValueDouble 'f

record 'f Field =
  Name :: string
  Representation :: string
  Value :: "'f FieldValue"

text \<open>
  The fields of Heka's \<^verbatim>\<open>message.Message\<close> that this package sets. The scalar ones are
  pointers in the Go struct: \<open>None\<close> is \<^verbatim>\<open>nil\<close>, \<open>Some v\<close> is what the setter stores.
\<close>

record 'f Message =
  Timestamp :: "int64 option"
  Uuid :: bytes
  Logger :: "string option"
  Type :: "string option"
  Pid :: "int32 option"
  Severity :: "int32 option"
  MsgHostname :: "string option"
  Payload :: "string option"
  Fields :: "'f Field list"

text \<open>What the package-level \<^verbatim>\<open>logger\<close> prints, one constructor for each call site's format.\<close>

datatype 'f log_entry =
    Connecting URL
  | ErrConnecting URL error
  | InjectSendError error
  | InjectEncodeError error
  | SkippingNoValue string
  | SkippingField string 'f error

text \<open>The observable actions of the package, in the order they happen.\<close>

datatype 'f event =
    Log "'f log_entry"
  | Close nat
  | Dial string string
  | Send nat bytes
  | Encode "'f Message"

fun is_Dial :: "'f event \<Rightarrow> bool" where
  "is_Dial (Dial s h) = True"
| "is_Dial _ = False"

fun is_Send :: "'f event \<Rightarrow> bool" where
  "is_Send (Send c b) = True"
| "is_Send _ = False"

fun is_Encode :: "'f event \<Rightarrow> bool" where
  "is_Encode (Encode m) = True"
| "is_Encode _ = False"

definition dials :: "'f event list \<Rightarrow> nat" where
  "dials tr = length (filter is_Dial tr)"

definition sends :: "'f event list \<Rightarrow> nat" where
  "sends tr = length (filter is_Send tr)"

definition encodes :: "'f event list \<Rightarrow> nat" where
  "encodes tr = length (filter is_Encode tr)"

text \<open>
  The collaborators outside the package. \<open>client_NewNetworkSender k scheme host\<close> is the
  error (or \<open>None\<close> for \<^verbatim>\<open>nil\<close>) of the \<open>k\<close>-th call of \<^verbatim>\<open>client.NewNetworkSender\<close>,
  counted from 0 over the whole trace; \<open>sender_SendMessage k c b\<close> likewise for the \<open>k\<close>-th
  \<^verbatim>\<open>SendMessage\<close>, on sender \<open>c\<close> with bytes \<open>b\<close>. \<open>message_NewField n v\<close> is the error
  of \<^verbatim>\<open>message.NewField(n, v, "")\<close> for a \<^verbatim>\<open>float64\<close> \<open>v\<close>. \<open>encoder_EncodeMessageStream m s\<close>
  is the error of \<^verbatim>\<open>hc.encoder.EncodeMessageStream(m, &stream)\<close> with the contents of
  \<^verbatim>\<open>stream\<close> after the call, \<open>s\<close> being its contents before.
\<close>

record 'f boundary =
  url_ParseRequestURI :: "string \<Rightarrow> error + URL"
  os_Getpid :: int32
  os_Hostname :: "error + string"
  client_NewNetworkSender :: "nat \<Rightarrow> string \<Rightarrow> string \<Rightarrow> error option"
  sender_SendMessage :: "nat \<Rightarrow> nat \<Rightarrow> bytes \<Rightarrow> error option"
  message_NewField :: "string \<Rightarrow> 'f \<Rightarrow> error option"
  encoder_EncodeMessageStream :: "'f Message \<Rightarrow> bytes \<Rightarrow> error option \<times> bytes"

section \<open>Construction\<close>

text \<open>
  \<^verbatim>\<open>NewHekaClient(connect, msgtype)\<close>, with its two named results \<^verbatim>\<open>(hc, err)\<close> as a pair
  of options (\<open>None\<close> for \<^verbatim>\<open>nil\<close>). It returns \<^verbatim>\<open>nil, err\<close> when the URL does not parse or
  its scheme is not \<^verbatim>\<open>tcp\<close> or \<^verbatim>\<open>udp\<close>. Otherwise the final bare \<^verbatim>\<open>return\<close> gives the client
  together with whatever \<^verbatim>\<open>os.Hostname\<close> left in \<^verbatim>\<open>err\<close>: \<^verbatim>\<open>nil\<close>, or its error next to a
  client whose hostname is the fallback. The trace is passed through: the function performs
  none of the traced actions.
\<close>

definition NewHekaClient ::
  "'f boundary \<Rightarrow> string \<Rightarrow> string \<Rightarrow> 'f event list
     \<Rightarrow> (HekaClient option \<times> error option) \<times> 'f event list" where
  "NewHekaClient B connect mtype tr =
     (case url_ParseRequestURI B connect of
        Inl err \<Rightarrow> ((None, Some err), tr)
      | Inr u \<Rightarrow>
          if Scheme u = ''tcp'' \<or> Scheme u = ''udp'' then
            ((Some \<lparr> pid = os_Getpid B,
                      hostname = (case os_Hostname B of
                                    Inl err \<Rightarrow> ''<no hostname>''
                                  | Inr h \<Rightarrow> h),
                      msgtype = mtype,
                      sender = None,
                      connect_s = u,
                      stop = ChanOpen \<rparr>,
              (case os_Hostname B of Inl err \<Rightarrow> Some err | Inr h \<Rightarrow> None)), tr)
          else ((None, Some (SchemeNotSupported (Scheme u))), tr))"

section \<open>The sender\<close>

text \<open>
  The closure \<^verbatim>\<open>reconnect\<close> of \<^verbatim>\<open>write\<close>: close and drop a live sender, log, dial; on a
  dial error the sender is \<^verbatim>\<open>nil\<close> and the error is logged and returned.
\<close>

definition reconnect ::
  "'f boundary \<Rightarrow> HekaClient \<Rightarrow> 'f event list \<Rightarrow> error option \<times> HekaClient \<times> 'f event list" where
  "reconnect B hc tr =
     (let (hc1, tr1) = (case sender hc of
                          Some c \<Rightarrow> (hc\<lparr>sender := None\<rparr>, tr @ [Close c])
                        | None \<Rightarrow> (hc, tr));
          tr2 = tr1 @ [Log (Connecting (connect_s hc1))];
          k = dials tr2;
          e = client_NewNetworkSender B k (Scheme (connect_s hc1)) (Host (connect_s hc1));
          tr3 = tr2 @ [Dial (Scheme (connect_s hc1)) (Host (connect_s hc1))]
      in case e of
           Some err \<Rightarrow> (Some err, hc1\<lparr>sender := None\<rparr>,
                        tr3 @ [Log (ErrConnecting (connect_s hc1) err)])
         | None \<Rightarrow> (None, hc1\<lparr>sender := Some k\<rparr>, tr3))"

text \<open>\<^verbatim>\<open>hc.sender.SendMessage(b)\<close>; on a \<^verbatim>\<open>nil\<close> sender the method call panics.\<close>

definition SendMessage ::
  "'f boundary \<Rightarrow> HekaClient \<Rightarrow> bytes \<Rightarrow> 'f event list \<Rightarrow> (panic + error option) \<times> 'f event list" where
  "SendMessage B hc b tr =
     (case sender hc of
        None \<Rightarrow> (Inl NilSender, tr)
      | Some c \<Rightarrow> (Inr (sender_SendMessage B (sends tr) c b), tr @ [Send c b]))"

text \<open>\<^verbatim>\<open>HekaClient.write\<close> (\<open>write\<close> is a keyword here, hence the longer name).\<close>

definition HekaClient_write ::
  "'f boundary \<Rightarrow> bytes \<Rightarrow> HekaClient \<Rightarrow> 'f event list
     \<Rightarrow> (panic + error option) \<times> HekaClient \<times> 'f event list" where
  "HekaClient_write B b hc tr =
     (case (if sender hc = None then reconnect B hc tr else (None, hc, tr)) of
        (Some err, hc1, tr1) \<Rightarrow> (Inr (Some err), hc1, tr1)
      | (None, hc1, tr1) \<Rightarrow>
          (case SendMessage B hc1 b tr1 of
             (Inl p, tr2) \<Rightarrow> (Inl p, hc1, tr2)
           | (Inr None, tr2) \<Rightarrow> (Inr None, hc1, tr2)
           | (Inr (Some err), tr2) \<Rightarrow>
               (case reconnect B hc1 (tr2 @ [Log (InjectSendError err)]) of
                  (Some err2, hc3, tr3) \<Rightarrow> (Inr (Some err2), hc3, tr3)
                | (None, hc3, tr3) \<Rightarrow>
                    (case SendMessage B hc3 b tr3 of
                       (Inl p, tr4) \<Rightarrow> (Inl p, hc3, tr4)
                     | (Inr r, tr4) \<Rightarrow> (Inr r, hc3, tr4)))))"

section \<open>The snapshot encoder\<close>

text \<open>
  The metric kinds of the type switch in \<^verbatim>\<open>make_message\<close>, each with what the switch reads
  from it. The request list of \<^verbatim>\<open>Percentiles\<close> is a list of the decimal constants of the
  source. \<open>Unhandled\<close> is any other registered value: no case of the switch matches it.
\<close>

record 'f HistogramSnapshot =
  h_Percentiles :: "rat list \<Rightarrow> 'f list"
  h_Mean :: 'f
  h_StdDev :: 'f
  h_Count :: int64
  h_Min :: int64
  h_Max :: int64

record 'f MeterSnapshot =
  m_Count :: int64
  m_Rate1 :: 'f
  m_Rate5 :: 'f
  m_Rate15 :: 'f
  m_RateMean :: 'f

record 'f TimerSnapshot =
  t_Percentiles :: "rat list \<Rightarrow> 'f list"
  t_Mean :: 'f
  t_StdDev :: 'f
  t_Rate1 :: 'f
  t_Rate5 :: 'f
  t_Rate15 :: 'f
  t_RateMean :: 'f
  t_Count :: int64
  t_Min :: int64
  t_Max :: int64

datatype 'f metric =
    Counter int64
  | Gauge int64
  | GaugeFloat64 'f
  | Histogram "'f HistogramSnapshot"
  | Meter "'f MeterSnapshot"
  | Timer "'f TimerSnapshot"
  | Unhandled

text \<open>
  The three functions of Heka's \<^verbatim>\<open>message\<close> package that the encoder calls:
  \<^verbatim>\<open>msg.AddField(f)\<close> and \<^verbatim>\<open>message.NewInt64Field(msg, name, val, representation)\<close> append
  a field to the message, \<^verbatim>\<open>message.NewField(name, value, representation)\<close> returns a
  field or an error.
\<close>

definition AddField :: "'f Message \<Rightarrow> 'f Field \<Rightarrow> 'f Message" where
  "AddField msg f = msg\<lparr>Fields := Fields msg @ [f]\<rparr>"

definition NewInt64Field :: "'f Message \<Rightarrow> string \<Rightarrow> int64 \<Rightarrow> string \<Rightarrow> 'f Message" where
  "NewInt64Field msg name val repr =
     AddField msg \<lparr>Name = name, Representation = repr, Value = ValueInteger val\<rparr>"

definition NewField :: "'f boundary \<Rightarrow> string \<Rightarrow> 'f \<Rightarrow> string \<Rightarrow> error + 'f Field" where
  "NewField B name v repr =
     (case message_NewField B name v of
        Some e \<Rightarrow> Inl e
      | None \<Rightarrow> Inr \<lparr>Name = name, Representation = repr, Value = ValueDouble v\<rparr>)"

text \<open>
  The closure \<^verbatim>\<open>add_float_mapping\<close>: the loop \<^verbatim>\<open>for i, n := range names\<close>, with \<open>i\<close> the
  index of the head of the names still to visit.
\<close>

fun add_float_mapping_from ::
  "'f boundary \<Rightarrow> string \<Rightarrow> nat \<Rightarrow> string list \<Rightarrow> 'f list
     \<Rightarrow> 'f Message \<times> 'f event list \<Rightarrow> 'f Message \<times> 'f event list" where
  "add_float_mapping_from B pref i [] vals (msg, tr) = (msg, tr)"
| "add_float_mapping_from B pref i (n0 # names) vals (msg, tr) =
     (let n = pref @ ''.'' @ n0 in
      if i + 1 > length vals then
        add_float_mapping_from B pref (i + 1) names vals (msg, tr @ [Log (SkippingNoValue n)])
      else
        (case NewField B n (vals ! i) '''' of
           Inr f \<Rightarrow> add_float_mapping_from B pref (i + 1) names vals (AddField msg f, tr)
         | Inl e \<Rightarrow>
             add_float_mapping_from B pref (i + 1) names vals
               (msg, tr @ [Log (SkippingField n (vals ! i) e)])))"

definition add_float_mapping ::
  "'f boundary \<Rightarrow> string \<Rightarrow> string list \<Rightarrow> 'f list
     \<Rightarrow> 'f Message \<times> 'f event list \<Rightarrow> 'f Message \<times> 'f event list" where
  "add_float_mapping B pref names vals s = add_float_mapping_from B pref 0 names vals s"

text \<open>
  The function passed to \<^verbatim>\<open>r.Each\<close>. The two loops over \<^verbatim>\<open>count\<close>, \<^verbatim>\<open>min\<close>, \<^verbatim>\<open>max\<close> pair
  a three-element name list with a three-element value list; the histogram's passes the field
  name as representation, the timer's passes the empty string.
\<close>

fun each_metric ::
  "'f boundary \<Rightarrow> string \<Rightarrow> 'f metric \<Rightarrow> 'f Message \<times> 'f event list
     \<Rightarrow> 'f Message \<times> 'f event list" where
  "each_metric B name (Counter c) (msg, tr) = (NewInt64Field msg name c '''', tr)"
| "each_metric B name (Gauge g) (msg, tr) = (NewInt64Field msg name g '''', tr)"
| "each_metric B name (GaugeFloat64 v) (msg, tr) =
     (case NewField B name v '''' of
        Inr f \<Rightarrow> (AddField msg f, tr)
      | Inl e \<Rightarrow> (msg, tr @ [Log (SkippingField name v e)]))"
| "each_metric B name (Histogram h) (msg, tr) =
     (let vals_fl = h_Percentiles h [0.5, 0.75, 0.95, 0.99, 0.999] @ [h_Mean h, h_StdDev h];
          names = [''50-percentile'', ''75-percentile'', ''95-percentile'',
                   ''99-percentile'', ''999-percentile'', ''mean'', ''std-dev''];
          (msg1, tr1) = add_float_mapping B (name @ ''.histogram'') names vals_fl (msg, tr);
          names2 = [''count'', ''min'', ''max''];
          vals_i = [h_Count h, h_Min h, h_Max h]
      in (foldl (\<lambda>m (n0, v). let n = name @ ''.histogram.'' @ n0 in NewInt64Field m n v n)
            msg1 (zip names2 vals_i), tr1))"
| "each_metric B name (Meter m) (msg, tr) =
     (let msg1 = NewInt64Field msg (name @ ''.count'') (m_Count m) '''';
          names = [''one-minute'', ''five-minute'', ''fifteen-minute'', ''mean''];
          vals_fl = [m_Rate1 m, m_Rate5 m, m_Rate15 m, m_RateMean m]
      in add_float_mapping B name names vals_fl (msg1, tr))"
| "each_metric B name (Timer h) (msg, tr) =
     (let vals_fl = t_Percentiles h [0.5, 0.75, 0.95, 0.99, 0.999]
                      @ [t_Mean h, t_StdDev h, t_Rate1 h, t_Rate5 h, t_Rate15 h, t_RateMean h];
          names = [''50-percentile'', ''75-percentile'', ''95-percentile'',
                   ''99-percentile'', ''999-percentile'', ''mean'', ''std-dev'', ''one-minute'',
                   ''five-minute'', ''fifteen-minute'', ''mean-rate''];
          (msg1, tr1) = add_float_mapping B (name @ ''.timer'') names vals_fl (msg, tr);
          names2 = [''count'', ''min'', ''max''];
          vals_i = [t_Count h, t_Min h, t_Max h]
      in (foldl (\<lambda>m (n0, v). let n = name @ ''.timer.'' @ n0 in NewInt64Field m n v '''')
            msg1 (zip names2 vals_i), tr1))"
| "each_metric B name Unhandled (msg, tr) = (msg, tr)"

text \<open>\<^verbatim>\<open>&message.Message{}\<close>: every pointer \<^verbatim>\<open>nil\<close>, every slice empty.\<close>

definition empty_Message :: "'f Message" where
  "empty_Message =
     \<lparr>Timestamp = None, Uuid = [], Logger = None, Type = None, Pid = None, Severity = None,
      MsgHostname = None, Payload = None, Fields = []\<rparr>"

text \<open>
  \<^verbatim>\<open>make_message(r)\<close>. The registry is the list of its entries in the order in which
  \<^verbatim>\<open>r.Each\<close> visits them.
\<close>

definition make_message ::
  "'f boundary \<Rightarrow> (string \<times> 'f metric) list \<Rightarrow> 'f event list \<Rightarrow> 'f Message \<times> 'f event list" where
  "make_message B r tr = fold (\<lambda>(name, i). each_metric B name i) r (empty_Message, tr)"

section \<open>The flush loop\<close>

text \<open>\<^verbatim>\<open>HekaClient.Stop\<close>: \<^verbatim>\<open>close(hc.stop)\<close>, which panics on a nil or closed channel.\<close>

definition Stop :: "HekaClient \<Rightarrow> panic + HekaClient" where
  "Stop hc =
     (case stop hc of
        ChanNil \<Rightarrow> Inl CloseOfNilChannel
      | ChanClosed \<Rightarrow> Inl CloseOfClosedChannel
      | ChanOpen \<Rightarrow> Inr (hc\<lparr>stop := ChanClosed\<rparr>))"

text \<open>
  The receive \<^verbatim>\<open>_, ok = <-ch\<close> on a channel nothing is sent on: ready with \<^verbatim>\<open>ok = false\<close>
  once the channel is closed, blocked (\<open>None\<close>) otherwise.
\<close>

definition chan_recv :: "chan \<Rightarrow> bool option" where
  "chan_recv ch = (case ch of ChanClosed \<Rightarrow> Some False | _ \<Rightarrow> None)"

text \<open>
  What one iteration of the loop in \<^verbatim>\<open>LogHeka\<close> takes from outside: how many times another
  goroutine calls \<^verbatim>\<open>Stop\<close> while the \<^verbatim>\<open>select\<close> waits, whether the \<^verbatim>\<open>select\<close> takes the
  timer case although the stop case is ready too, the contents of the registry, the clock
  and the random UUID.
\<close>

record 'f cycle =
  stop_calls :: nat
  timer_chosen :: bool
  registry :: "(string \<times> 'f metric) list"
  time_Now_UnixNano :: int64
  uuid_NewRandom :: bytes

fun Stop_calls :: "nat \<Rightarrow> HekaClient \<Rightarrow> panic + HekaClient" where
  "Stop_calls 0 hc = Inr hc"
| "Stop_calls (Suc n) hc = (case Stop hc of Inl p \<Rightarrow> Inl p | Inr hc' \<Rightarrow> Stop_calls n hc')"

text \<open>
  The body of the loop after the \<^verbatim>\<open>select\<close>: build the message, set the envelope, encode
  into \<^verbatim>\<open>stream\<close>, log an encode error, call \<^verbatim>\<open>write\<close> with \<^verbatim>\<open>stream\<close>, log a send error.
\<close>

definition flush ::
  "'f boundary \<Rightarrow> 'f cycle \<Rightarrow> bytes \<Rightarrow> HekaClient \<Rightarrow> 'f event list
     \<Rightarrow> (panic + unit) \<times> bytes \<times> HekaClient \<times> 'f event list" where
  "flush B c stream hc tr =
     (let (msg0, tr0) = make_message B (registry c) tr;
          msg = msg0\<lparr>Timestamp := Some (time_Now_UnixNano c), Uuid := uuid_NewRandom c,
                     Logger := Some ''go-metrics'', Type := Some (msgtype hc),
                     Pid := Some (pid hc), Severity := Some 100,
                     MsgHostname := Some (hostname hc), Payload := Some ''''\<rparr>;
          (err, stream1) = encoder_EncodeMessageStream B msg stream;
          tr1 = tr0 @ [Encode msg];
          tr2 = (case err of Some e \<Rightarrow> tr1 @ [Log (InjectEncodeError e)] | None \<Rightarrow> tr1)
      in case HekaClient_write B stream1 hc tr2 of
           (Inl p, hc3, tr3) \<Rightarrow> (Inl p, stream1, hc3, tr3)
         | (Inr err2, hc3, tr3) \<Rightarrow>
             (Inr (), stream1, hc3,
              (case err2 of Some e \<Rightarrow> tr3 @ [Log (InjectSendError e)] | None \<Rightarrow> tr3)))"

text \<open>
  How a run of the loop over a finite schedule ends: \<open>Returned\<close> when \<^verbatim>\<open>LogHeka\<close> returns,
  \<open>Waiting\<close> when the schedule is used up and the loop is in its \<^verbatim>\<open>select\<close> again,
  \<open>Crashed\<close> when a goroutine panics.
\<close>

datatype loop_end = Returned | Waiting | Crashed panic

text \<open>
  The loop \<^verbatim>\<open>for running { select {...}; ... }\<close>. The stop channel is shared with the
  goroutines that call \<^verbatim>\<open>Stop\<close>: their calls during the wait act on the client first, and a
  panic in one of them ends the process. The \<^verbatim>\<open>select\<close> then takes the stop case when the
  receive is ready (unless the timer case is ready as well and is the one chosen), and the
  timer case otherwise. The stop case assigns \<^verbatim>\<open>running\<close> the \<^verbatim>\<open>ok\<close> of the receive, the
  timer case leaves it \<^verbatim>\<open>true\<close>; the body runs in both cases and the condition is read
  after it.
\<close>

fun LogHeka_loop ::
  "'f boundary \<Rightarrow> 'f cycle list \<Rightarrow> bytes \<Rightarrow> HekaClient \<Rightarrow> 'f event list
     \<Rightarrow> loop_end \<times> HekaClient \<times> 'f event list" where
  "LogHeka_loop B [] stream hc tr = (Waiting, hc, tr)"
| "LogHeka_loop B (c # cs) stream hc tr =
     (case Stop_calls (stop_calls c) hc of
        Inl p \<Rightarrow> (Crashed p, hc, tr)
      | Inr hc0 \<Rightarrow>
          (let running = (case chan_recv (stop hc0) of
                            Some ok \<Rightarrow> if timer_chosen c then True else ok
                          | None \<Rightarrow> True)
           in case flush B c stream hc0 tr of
                (Inl p, stream1, hc1, tr1) \<Rightarrow> (Crashed p, hc1, tr1)
              | (Inr u, stream1, hc1, tr1) \<Rightarrow>
                  if running then LogHeka_loop B cs stream1 hc1 tr1
                  else (Returned, hc1, tr1)))"

text \<open>\<^verbatim>\<open>HekaClient.LogHeka\<close>: \<^verbatim>\<open>stream\<close> starts as the nil slice.\<close>

definition LogHeka ::
  "'f boundary \<Rightarrow> 'f cycle list \<Rightarrow> HekaClient \<Rightarrow> 'f event list
     \<Rightarrow> loop_end \<times> HekaClient \<times> 'f event list" where
  "LogHeka B cs hc tr = LogHeka_loop B cs [] hc tr"

section \<open>Derived notions and concrete scenarios\<close>

text \<open>
  \<open>entry_fields B (name, m)\<close> is what one registry entry adds to an empty message;
  \<open>quiet tr tr'\<close> says that \<open>tr'\<close> has as many dial, send and encode events as \<open>tr\<close>.
  Neither is in the source: they state lemmas about it.
\<close>

definition entry_fields :: "'f boundary \<Rightarrow> string \<times> 'f metric \<Rightarrow> 'f Field list" where
  "entry_fields B e = Fields (fst (each_metric B (fst e) (snd e) (empty_Message, [])))"

definition quiet :: "'f event list \<Rightarrow> 'f event list \<Rightarrow> bool" where
  "quiet tr tr' \<longleftrightarrow> dials tr' = dials tr \<and> sends tr' = sends tr \<and> encodes tr' = encodes tr"

text \<open>
  The suffixes of \<^verbatim>\<open>make_message\<close>'s name lists, each behind the prefix its case puts before
  it: \<open>dotted_suffixes m\<close> is what a histogram, meter or timer appends to its name,
  \<open>field_suffixes m\<close> adds the empty suffix of a counter or gauge, whose one field bears
  the metric's name. \<open>reserved_names n a b\<close> lists the names that a metric of the kind of
  \<open>b\<close> cannot bear next to the metric \<open>a\<close> named \<open>n\<close> without two fields of the same name:
  a counter or gauge named like a field derived from \<open>a\<close>, a meter named like a histogram
  followed by \<^verbatim>\<open>.histogram\<close> or a timer followed by \<^verbatim>\<open>.timer\<close> (then both have a
  \<^verbatim>\<open>count\<close> field of one name). \<open>percentiles_complete m\<close> says that \<^verbatim>\<open>Percentiles\<close>
  returns five values for the five requested.
\<close>

fun dotted_suffixes :: "'f metric \<Rightarrow> string list" where
  "dotted_suffixes (Histogram h) =
     [''.histogram.50-percentile'', ''.histogram.75-percentile'', ''.histogram.95-percentile'',
      ''.histogram.99-percentile'', ''.histogram.999-percentile'', ''.histogram.mean'',
      ''.histogram.std-dev'', ''.histogram.count'', ''.histogram.min'', ''.histogram.max'']"
| "dotted_suffixes (Meter m) =
     [''.count'', ''.one-minute'', ''.five-minute'', ''.fifteen-minute'', ''.mean'']"
| "dotted_suffixes (Timer t) =
     [''.timer.50-percentile'', ''.timer.75-percentile'', ''.timer.95-percentile'',
      ''.timer.99-percentile'', ''.timer.999-percentile'', ''.timer.mean'', ''.timer.std-dev'',
      ''.timer.one-minute'', ''.timer.five-minute'', ''.timer.fifteen-minute'',
      ''.timer.mean-rate'', ''.timer.count'', ''.timer.min'', ''.timer.max'']"
| "dotted_suffixes (Counter c) = []"
| "dotted_suffixes (Gauge g) = []"
| "dotted_suffixes (GaugeFloat64 v) = []"
| "dotted_suffixes Unhandled = []"

fun single_field :: "'f metric \<Rightarrow> bool" where
  "single_field (Counter c) = True"
| "single_field (Gauge g) = True"
| "single_field (GaugeFloat64 v) = True"
| "single_field (Histogram h) = False"
| "single_field (Meter m) = False"
| "single_field (Timer t) = False"
| "single_field Unhandled = False"

definition field_suffixes :: "'f metric \<Rightarrow> string list" where
  "field_suffixes m = (if single_field m then [''''] else dotted_suffixes m)"

fun reserved_names :: "string \<Rightarrow> 'f metric \<Rightarrow> 'f metric \<Rightarrow> string list" where
  "reserved_names n (Histogram h) (Meter m) = [n @ ''.histogram'']"
| "reserved_names n (Timer t) (Meter m) = [n @ ''.timer'']"
| "reserved_names n a b = (if single_field b then map ((@) n) (dotted_suffixes a) else [])"

fun percentiles_complete :: "'f metric \<Rightarrow> bool" where
  "percentiles_complete (Histogram h) =
     (length (h_Percentiles h [0.5, 0.75, 0.95, 0.99, 0.999]) = 5)"
| "percentiles_complete (Timer t) =
     (length (t_Percentiles t [0.5, 0.75, 0.95, 0.99, 0.999]) = 5)"
| "percentiles_complete m = True"

text \<open>
  A reachable collector and a client as the README builds it
  (\<^verbatim>\<open>NewHekaClient("tcp://localhost:5565", "teststats")\<close>), a cycle on an empty registry in
  which the timer fires, snapshots of a histogram, a meter and a timer, and a registry. They
  are the inputs of the closed theorems below; the float type is \<open>rat\<close> there.
\<close>

definition example_boundary :: "rat boundary" where
  "example_boundary =
     \<lparr>url_ParseRequestURI = (\<lambda>s. Inr \<lparr>Scheme = ''tcp'', Host = ''localhost:5565''\<rparr>),
      os_Getpid = 1,
      os_Hostname = Inr ''host'',
      client_NewNetworkSender = (\<lambda>k s h. None),
      sender_SendMessage = (\<lambda>k c b. None),
      message_NewField = (\<lambda>n v. None),
      encoder_EncodeMessageStream = (\<lambda>m s. (None, [1, 2, 3]))\<rparr>"

definition example_client :: HekaClient where
  "example_client =
     \<lparr>pid = 1, hostname = ''host'', msgtype = ''teststats'', sender = None,
      connect_s = \<lparr>Scheme = ''tcp'', Host = ''localhost:5565''\<rparr>, stop = ChanOpen\<rparr>"

definition example_cycle :: "rat cycle" where
  "example_cycle =
     \<lparr>stop_calls = 0, timer_chosen = False, registry = [], time_Now_UnixNano = 0,
      uuid_NewRandom = []\<rparr>"

definition example_histogram :: "rat HistogramSnapshot" where
  "example_histogram =
     \<lparr>h_Percentiles = (\<lambda>ps. [40, 60, 90, 99, 100]), h_Mean = 50, h_StdDev = 20,
      h_Count = 10, h_Min = 1, h_Max = 100\<rparr>"

definition example_timer :: "rat TimerSnapshot" where
  "example_timer =
     \<lparr>t_Percentiles = (\<lambda>ps. [40, 60, 90, 99, 100]), t_Mean = 50, t_StdDev = 20,
      t_Rate1 = 2, t_Rate5 = 3, t_Rate15 = 4, t_RateMean = 5,
      t_Count = 10, t_Min = 1, t_Max = 100\<rparr>"

definition example_meter :: "rat MeterSnapshot" where
  "example_meter =
     \<lparr>m_Count = 5, m_Rate1 = 2, m_Rate5 = 3, m_Rate15 = 4, m_RateMean = 1\<rparr>"

definition example_registry :: "(string \<times> rat metric) list" where
  "example_registry =
     [(''cpu'', Counter 1), (''cpu.load'', GaugeFloat64 0.73),
      (''a'', Meter example_meter), (''a.b'', Meter example_meter),
      (''h'', Histogram
         \<lparr>h_Percentiles = (\<lambda>ps. [40, 60, 90, 99, 100]), h_Mean = 50, h_StdDev = 20,
          h_Count = 10, h_Min = 1, h_Max = 100\<rparr>)]"

section \<open>Counting events\<close>

lemma dials_simps [simp]:
  "dials [] = 0"
  "dials (e # tr) = (if is_Dial e then 1 else 0) + dials tr"
  "dials (tr @ tr2) = dials tr + dials tr2"
  by (simp_all add: dials_def)

lemma sends_simps [simp]:
  "sends [] = 0"
  "sends (e # tr) = (if is_Send e then 1 else 0) + sends tr"
  "sends (tr @ tr2) = sends tr + sends tr2"
  by (simp_all add: sends_def)

lemma encodes_simps [simp]:
  "encodes [] = 0"
  "encodes (e # tr) = (if is_Encode e then 1 else 0) + encodes tr"
  "encodes (tr @ tr2) = encodes tr + encodes tr2"
  by (simp_all add: encodes_def)

section \<open>The steps of the sender\<close>

lemma reconnect_dials: "reconnect B hc tr = (e, hc', tr') \<Longrightarrow> dials tr' = dials tr + 1"
  by (cases "sender hc") (auto simp: reconnect_def Let_def split: option.splits)

lemma reconnect_sends: "reconnect B hc tr = (e, hc', tr') \<Longrightarrow> sends tr' = sends tr"
  by (cases "sender hc") (auto simp: reconnect_def Let_def split: option.splits)

lemma reconnect_encodes: "reconnect B hc tr = (e, hc', tr') \<Longrightarrow> encodes tr' = encodes tr"
  by (cases "sender hc") (auto simp: reconnect_def Let_def split: option.splits)

lemma reconnect_ok: "reconnect B hc tr = (None, hc', tr') \<Longrightarrow> \<exists>c. sender hc' = Some c"
  by (cases "sender hc") (auto simp: reconnect_def Let_def split: option.splits)

lemma SendMessage_dials: "SendMessage B hc b tr = (r, tr') \<Longrightarrow> dials tr' = dials tr"
  by (auto simp: SendMessage_def split: option.splits)

lemma SendMessage_sends: "SendMessage B hc b tr = (r, tr') \<Longrightarrow> sends tr' \<le> sends tr + 1"
  by (auto simp: SendMessage_def split: option.splits)

lemma SendMessage_live: "sender hc = Some c \<Longrightarrow>
  SendMessage B hc b tr = (Inr (sender_SendMessage B (sends tr) c b), tr @ [Send c b])"
  by (simp add: SendMessage_def)

text \<open>
  A call of \<^verbatim>\<open>write\<close> returns (it never calls \<^verbatim>\<open>SendMessage\<close> on a nil sender), it makes
  at least one dial or send, and it encodes nothing.
\<close>

lemma write_facts:
  "(\<exists>r. fst (HekaClient_write B b hc tr) = Inr r) \<and>
   encodes (snd (snd (HekaClient_write B b hc tr))) = encodes tr \<and>
   dials tr + sends tr < dials (snd (snd (HekaClient_write B b hc tr)))
                          + sends (snd (snd (HekaClient_write B b hc tr)))"
proof -
  obtain e1 hc1 tr1 where
    r1: "(if sender hc = None then reconnect B hc tr else (None, hc, tr)) = (e1, hc1, tr1)"
    by (rule prod_cases3)
  have b1: "dials tr \<le> dials tr1 \<and> sends tr1 = sends tr \<and> encodes tr1 = encodes tr
            \<and> (sender hc = None \<longrightarrow> dials tr1 = dials tr + 1)"
    using r1 reconnect_dials [of B hc tr e1 hc1 tr1] reconnect_sends [of B hc tr e1 hc1 tr1]
      reconnect_encodes [of B hc tr e1 hc1 tr1]
    by (simp split: if_splits)
  show ?thesis
  proof (cases e1)
    case (Some err)
    with r1 have "sender hc = None" by (simp split: if_splits)
    with Some r1 b1 show ?thesis by (simp add: HekaClient_write_def)
  next
    case None
    obtain c1 where c1: "sender hc1 = Some c1"
      using r1 None reconnect_ok [of B hc tr hc1 tr1] by (auto split: if_splits)
    note s2 = SendMessage_live [OF c1, of B b tr1]
    show ?thesis
    proof (cases "sender_SendMessage B (sends tr1) c1 b")
      case None2: None
      with r1 None s2 b1 show ?thesis by (simp add: HekaClient_write_def)
    next
      case Some2: (Some err)
      obtain e3 hc3 tr3 where
        r3: "reconnect B hc1 (tr1 @ [Send c1 b] @ [Log (InjectSendError err)]) = (e3, hc3, tr3)"
        by (rule prod_cases3)
      have b3: "dials tr3 = dials tr1 + 1 \<and> sends tr3 = sends tr1 + 1 \<and> encodes tr3 = encodes tr1"
        using reconnect_dials [OF r3] reconnect_sends [OF r3] reconnect_encodes [OF r3] by simp
      show ?thesis
      proof (cases e3)
        case Some3: (Some err2)
        with r1 None s2 Some2 r3 b1 b3 show ?thesis
          by (simp add: HekaClient_write_def)
      next
        case None3: None
        obtain c3 where c3: "sender hc3 = Some c3"
          using r3 None3 reconnect_ok [of B hc1 _ hc3 tr3] by auto
        note s4 = SendMessage_live [OF c3, of B b tr3]
        from r1 None s2 Some2 r3 None3 s4 b1 b3 show ?thesis
          by (simp add: HekaClient_write_def)
      qed
    qed
  qed
qed

section \<open>The fields of a message\<close>

text \<open>
  The float fields that \<^verbatim>\<open>add_float_mapping\<close> appends: one for each pair of a name and the
  value at its index for which \<^verbatim>\<open>NewField\<close> returns no error, in the order of the names.
\<close>

lemma add_float_mapping_from_Fields:
  "Fields (fst (add_float_mapping_from B pref i names vals (msg, tr))) =
     Fields msg @ map (\<lambda>(n, v). \<lparr>Name = pref @ ''.'' @ n, Representation = '''', Value = ValueDouble v\<rparr>)
       (filter (\<lambda>(n, v). message_NewField B (pref @ ''.'' @ n) v = None) (zip names (drop i vals)))"
proof (induction names arbitrary: i msg tr)
  case Nil
  show ?case by simp
next
  case (Cons n0 names)
  show ?case
  proof (cases "i + 1 > length vals")
    case True
    then show ?thesis using Cons.IH [of "i + 1"] by simp
  next
    case False
    then have d: "drop i vals = vals ! i # drop (Suc i) vals"
      by (simp add: Cons_nth_drop_Suc)
    show ?thesis
    proof (cases "message_NewField B (pref @ ''.'' @ n0) (vals ! i)")
      case None
      with False d show ?thesis using Cons.IH [of "i + 1"]
        by (simp add: NewField_def AddField_def)
    next
      case (Some e)
      with False d show ?thesis using Cons.IH [of "i + 1"]
        by (simp add: NewField_def)
    qed
  qed
qed

lemma Fields_empty_Message [simp]: "Fields empty_Message = []"
  by (simp add: empty_Message_def)

lemma add_float_mapping_Fields:
  "Fields (fst (add_float_mapping B pref names vals (msg, tr))) =
     Fields msg @ map (\<lambda>(n, v). \<lparr>Name = pref @ ''.'' @ n, Representation = '''', Value = ValueDouble v\<rparr>)
       (filter (\<lambda>(n, v). message_NewField B (pref @ ''.'' @ n) v = None) (zip names vals))"
  using add_float_mapping_from_Fields [of B pref 0 names vals msg tr]
  by (simp add: add_float_mapping_def)

lemma each_metric_Fields:
  "Fields (fst (each_metric B name m (msg, tr))) = Fields msg @ entry_fields B (name, m)"
proof (cases m)
  case (Counter c)
  then show ?thesis by (simp add: entry_fields_def NewInt64Field_def AddField_def)
next
  case (Gauge g)
  then show ?thesis by (simp add: entry_fields_def NewInt64Field_def AddField_def)
next
  case (GaugeFloat64 v)
  then show ?thesis
    by (simp add: entry_fields_def NewField_def AddField_def split: option.splits)
next
  case (Histogram h)
  then show ?thesis
    by (simp add: entry_fields_def NewInt64Field_def AddField_def Let_def case_prod_beta
        add_float_mapping_Fields)
next
  case (Meter x)
  then show ?thesis
    by (simp add: entry_fields_def NewInt64Field_def AddField_def Let_def
        add_float_mapping_Fields)
next
  case (Timer t)
  then show ?thesis
    by (simp add: entry_fields_def NewInt64Field_def AddField_def Let_def case_prod_beta
        add_float_mapping_Fields)
next
  case Unhandled
  then show ?thesis by (simp add: entry_fields_def)
qed

lemma fold_each_metric_Fields:
  "Fields (fst (fold (\<lambda>(name, i). each_metric B name i) r (msg, tr))) =
     Fields msg @ concat (map (entry_fields B) r)"
proof (induction r arbitrary: msg tr)
  case Nil
  show ?case by simp
next
  case (Cons e r)
  obtain name m where e: "e = (name, m)" by (cases e)
  obtain msg1 tr1 where s: "each_metric B name m (msg, tr) = (msg1, tr1)" by (cases "each_metric B name m (msg, tr)")
  have "Fields msg1 = Fields msg @ entry_fields B (name, m)"
    using each_metric_Fields [of B name m msg tr] s by simp
  then show ?case using Cons.IH [of msg1 tr1] e s by simp
qed

text \<open>The fields of a message are those of the registry's entries, entry after entry.\<close>

lemma make_message_Fields:
  "Fields (fst (make_message B r tr)) = concat (map (entry_fields B) r)"
  by (simp add: make_message_def fold_each_metric_Fields)

lemma zip_nth_upt:
  "length ys \<le> length xs \<Longrightarrow> zip xs ys = map (\<lambda>i. (xs ! i, ys ! i)) [0..<length ys]"
  by (rule nth_equalityI) simp_all

section \<open>The names of the fields\<close>

lemma zip_filter_names:
  assumes "distinct ns"
  shows "distinct (map (\<lambda>z. p @ fst z) (filter P (zip ns vs)))"
    and "set (map (\<lambda>z. p @ fst z) (filter P (zip ns vs))) \<subseteq> (\<lambda>n. p @ n) ` set ns"
proof -
  have "distinct (map fst (zip ns vs))"
    using assms by (simp add: map_fst_zip_take)
  then have "distinct (map (\<lambda>z. p @ fst z) (zip ns vs))"
    by (simp add: distinct_map inj_on_def)
  then show "distinct (map (\<lambda>z. p @ fst z) (filter P (zip ns vs)))"
    by (rule distinct_map_filter)
  show "set (map (\<lambda>z. p @ fst z) (filter P (zip ns vs))) \<subseteq> (\<lambda>n. p @ n) ` set ns"
    by (auto dest: set_zip_leftD)
qed

text \<open>
  Every field name of an entry is the metric's name followed by one of the metric's
  suffixes, and no suffix occurs twice in one entry.
\<close>

lemma entry_names:
  "\<exists>ts. map Name (entry_fields B (name, m)) = map ((@) name) ts \<and> distinct ts \<and>
        set ts \<subseteq> set (field_suffixes m)"
proof (cases m)
  case (Counter c)
  then have "map Name (entry_fields B (name, m)) = map ((@) name) [[]]"
    by (simp add: entry_fields_def NewInt64Field_def AddField_def)
  then show ?thesis using Counter by (intro exI [of _ "[[]]"]) (simp add: field_suffixes_def)
next
  case (Gauge g)
  then have "map Name (entry_fields B (name, m)) = map ((@) name) [[]]"
    by (simp add: entry_fields_def NewInt64Field_def AddField_def)
  then show ?thesis using Gauge by (intro exI [of _ "[[]]"]) (simp add: field_suffixes_def)
next
  case (GaugeFloat64 v)
  show ?thesis
  proof (cases "message_NewField B name v")
    case None
    with GaugeFloat64 have "map Name (entry_fields B (name, m)) = map ((@) name) [[]]"
      by (simp add: entry_fields_def NewField_def AddField_def)
    then show ?thesis using GaugeFloat64
      by (intro exI [of _ "[[]]"]) (simp add: field_suffixes_def)
  next
    case (Some e)
    with GaugeFloat64 have "map Name (entry_fields B (name, m)) = map ((@) name) []"
      by (simp add: entry_fields_def NewField_def AddField_def)
    then show ?thesis by (intro exI [of _ "[]"]) simp
  qed
next
  case (Histogram h)
  define ns where "ns = [''50-percentile'', ''75-percentile'', ''95-percentile'',
                   ''99-percentile'', ''999-percentile'', ''mean'', ''std-dev'']"
  define vs where "vs = h_Percentiles h [0.5, 0.75, 0.95, 0.99, 0.999] @ [h_Mean h, h_StdDev h]"
  define P where "P = (\<lambda>(n, v). message_NewField B (name @ ''.histogram'' @ ''.'' @ n) v = None)"
  define A where "A = map (\<lambda>z. ''.histogram.'' @ fst z) (filter P (zip ns vs))"
  define C where "C = [''.histogram.count'', ''.histogram.min'', ''.histogram.max'']"
  have d: "distinct ns" by (simp add: ns_def)
  have eq: "map Name (entry_fields B (name, m)) = map ((@) name) (A @ C)"
    using Histogram
    by (simp add: entry_fields_def NewInt64Field_def AddField_def Let_def case_prod_beta
        add_float_mapping_Fields A_def C_def P_def ns_def vs_def comp_def)
  have dA: "distinct A" and sA: "set A \<subseteq> (\<lambda>n. ''.histogram.'' @ n) ` set ns"
    unfolding A_def using zip_filter_names [OF d] by blast+
  have "distinct (A @ C)"
    using dA sA by (auto simp: C_def ns_def)
  moreover have "(\<lambda>n. ''.histogram.'' @ n) ` set ns \<subseteq> set (field_suffixes m)"
    using Histogram by (simp add: ns_def field_suffixes_def)
  then have "set (A @ C) \<subseteq> set (field_suffixes m)"
    using sA Histogram by (simp add: C_def field_suffixes_def; blast)
  ultimately show ?thesis using eq by blast
next
  case (Meter x)
  define ns where "ns = [''one-minute'', ''five-minute'', ''fifteen-minute'', ''mean'']"
  define vs where "vs = [m_Rate1 x, m_Rate5 x, m_Rate15 x, m_RateMean x]"
  define P where "P = (\<lambda>(n, v). message_NewField B (name @ ''.'' @ n) v = None)"
  define A where "A = map (\<lambda>z. ''.'' @ fst z) (filter P (zip ns vs))"
  define C where "C = [''.count'']"
  have d: "distinct ns" by (simp add: ns_def)
  have eq: "map Name (entry_fields B (name, m)) = map ((@) name) (C @ A)"
    using Meter unfolding A_def C_def P_def ns_def vs_def
    by (simp only: entry_fields_def fst_conv snd_conv each_metric.simps Let_def
        add_float_mapping_Fields) (simp add: NewInt64Field_def AddField_def comp_def case_prod_beta)
  have dA: "distinct A" and sA: "set A \<subseteq> (\<lambda>n. ''.'' @ n) ` set ns"
    unfolding A_def using zip_filter_names [OF d] by blast+
  have "distinct (C @ A)"
    using dA sA by (auto simp: C_def ns_def)
  moreover have "(\<lambda>n. ''.'' @ n) ` set ns \<subseteq> set (field_suffixes m)"
    using Meter by (simp add: ns_def field_suffixes_def)
  then have "set (C @ A) \<subseteq> set (field_suffixes m)"
    using sA Meter by (simp add: C_def field_suffixes_def; blast)
  ultimately show ?thesis using eq by blast
next
  case (Timer h)
  define ns where "ns = [''50-percentile'', ''75-percentile'', ''95-percentile'',
                   ''99-percentile'', ''999-percentile'', ''mean'', ''std-dev'', ''one-minute'',
                   ''five-minute'', ''fifteen-minute'', ''mean-rate'']"
  define vs where "vs = t_Percentiles h [0.5, 0.75, 0.95, 0.99, 0.999]
                      @ [t_Mean h, t_StdDev h, t_Rate1 h, t_Rate5 h, t_Rate15 h, t_RateMean h]"
  define P where "P = (\<lambda>(n, v). message_NewField B (name @ ''.timer'' @ ''.'' @ n) v = None)"
  define A where "A = map (\<lambda>z. ''.timer.'' @ fst z) (filter P (zip ns vs))"
  define C where "C = [''.timer.count'', ''.timer.min'', ''.timer.max'']"
  have d: "distinct ns" by (simp add: ns_def)
  have eq: "map Name (entry_fields B (name, m)) = map ((@) name) (A @ C)"
    using Timer
    by (simp add: entry_fields_def NewInt64Field_def AddField_def Let_def case_prod_beta
        add_float_mapping_Fields A_def C_def P_def ns_def vs_def comp_def)
  have dA: "distinct A" and sA: "set A \<subseteq> (\<lambda>n. ''.timer.'' @ n) ` set ns"
    unfolding A_def using zip_filter_names [OF d] by blast+
  have "distinct (A @ C)"
    using dA sA by (auto simp: C_def ns_def)
  moreover have "(\<lambda>n. ''.timer.'' @ n) ` set ns \<subseteq> set (field_suffixes m)"
    using Timer by (simp add: ns_def field_suffixes_def)
  then have "set (A @ C) \<subseteq> set (field_suffixes m)"
    using sA Timer by (simp add: C_def field_suffixes_def; blast)
  ultimately show ?thesis using eq by blast
next
  case Unhandled
  then have "map Name (entry_fields B (name, m)) = map ((@) name) []"
    by (simp add: entry_fields_def)
  then show ?thesis by (intro exI [of _ "[]"]) simp
qed

lemma entry_names_distinct: "distinct (map Name (entry_fields B (name, m)))"
proof -
  obtain ts where "map Name (entry_fields B (name, m)) = map ((@) name) ts" "distinct ts"
    using entry_names [of B name m] by blast
  then show ?thesis by (simp add: distinct_map inj_on_def)
qed

text \<open>When no field is skipped, every suffix occurs.\<close>

lemma length_five: "length xs = 5 \<Longrightarrow> \<exists>a b c d e. xs = [a, b, c, d, e]"
proof -
  assume "length xs = 5"
  then have "length xs = Suc (Suc (Suc (Suc (Suc 0))))" by simp
  then show ?thesis by (auto simp: length_Suc_conv)
qed

lemma entry_names_full:
  assumes "\<forall>n v. message_NewField B n v = None" and "percentiles_complete m"
  shows "map Name (entry_fields B (name, m)) = map ((@) name) (field_suffixes m)"
proof (cases m)
  case (Counter c)
  then show ?thesis
    by (simp add: entry_fields_def NewInt64Field_def AddField_def field_suffixes_def)
next
  case (Gauge g)
  then show ?thesis
    by (simp add: entry_fields_def NewInt64Field_def AddField_def field_suffixes_def)
next
  case (GaugeFloat64 v)
  then show ?thesis using assms(1)
    by (simp add: entry_fields_def NewField_def AddField_def field_suffixes_def)
next
  case (Histogram h)
  with assms(2) obtain p1 p2 p3 p4 p5 where
    "h_Percentiles h [0.5, 0.75, 0.95, 0.99, 0.999] = [p1, p2, p3, p4, p5]"
    using length_five [of "h_Percentiles h [0.5, 0.75, 0.95, 0.99, 0.999]"] by auto
  with Histogram assms(1) show ?thesis
    by (simp add: entry_fields_def NewInt64Field_def AddField_def Let_def case_prod_beta
        add_float_mapping_Fields field_suffixes_def)
next
  case (Meter x)
  with assms(1) show ?thesis
    by (simp add: entry_fields_def NewInt64Field_def AddField_def Let_def
        add_float_mapping_Fields field_suffixes_def)
next
  case (Timer t)
  with assms(2) obtain p1 p2 p3 p4 p5 where
    "t_Percentiles t [0.5, 0.75, 0.95, 0.99, 0.999] = [p1, p2, p3, p4, p5]"
    using length_five [of "t_Percentiles t [0.5, 0.75, 0.95, 0.99, 0.999]"] by auto
  with Timer assms(1) show ?thesis
    by (simp add: entry_fields_def NewInt64Field_def AddField_def Let_def case_prod_beta
        add_float_mapping_Fields field_suffixes_def)
next
  case Unhandled
  then show ?thesis by (simp add: entry_fields_def field_suffixes_def)
qed

text \<open>
  Every dotted suffix starts with a dot; a meter's has one dot, a histogram's or timer's
  two. So when one suffix ends with another and is longer, the shorter one is empty or a
  meter's, and in the second case the longer one is a histogram's or a timer's and they
  differ by \<^verbatim>\<open>.histogram\<close> or \<^verbatim>\<open>.timer\<close>.
\<close>

lemma dotted_suffixes_dots:
  "t \<in> set (dotted_suffixes m) \<Longrightarrow>
     (\<exists>t'. t = CHR ''.'' # t') \<and> count_list t CHR ''.'' = (case m of Meter x \<Rightarrow> 1 | _ \<Rightarrow> 2)"
  by (cases m) auto

lemma split_suffix:
  "t1 = us @ t2 \<Longrightarrow> us = take (length t1 - length t2) t1 \<and> drop (length t1 - length t2) t1 = t2"
  by simp

lemma histogram_meter_split:
  assumes "t1 \<in> set (dotted_suffixes (Histogram h))" and "t2 \<in> set (dotted_suffixes (Meter x))"
    and "t1 = us @ t2"
  shows "us = ''.histogram''"
  using assms(1,2) split_suffix [OF assms(3)] by auto

lemma timer_meter_split:
  assumes "t1 \<in> set (dotted_suffixes (Timer t))" and "t2 \<in> set (dotted_suffixes (Meter x))"
    and "t1 = us @ t2"
  shows "us = ''.timer''"
  using assms(1,2) split_suffix [OF assms(3)] by auto

lemma reserved_names_single:
  "single_field m2 \<Longrightarrow> reserved_names n m1 m2 = map ((@) n) (dotted_suffixes m1)"
  by (cases m1; cases m2) simp_all

lemma count_dots_append:
  "count_list (us @ t2) CHR ''.'' = count_list us CHR ''.'' + count_list t2 CHR ''.''"
  by simp

lemma clash_dir:
  assumes t1: "t1 \<in> set (field_suffixes m1)" and t2: "t2 \<in> set (field_suffixes m2)"
    and us: "us \<noteq> []" and eq: "t1 = us @ t2"
  shows "n @ us \<in> set (reserved_names n m1 m2)"
proof -
  from us eq have ne: "t1 \<noteq> []" by simp
  with t1 have d1: "t1 \<in> set (dotted_suffixes m1)"
    by (auto simp: field_suffixes_def split: if_splits)
  from dotted_suffixes_dots [OF d1] obtain t' where hd1: "t1 = CHR ''.'' # t'"
    and c1: "count_list t1 CHR ''.'' = (case m1 of Meter x \<Rightarrow> 1 | _ \<Rightarrow> 2)"
    by blast
  from hd1 eq us obtain us' where us': "us = CHR ''.'' # us'"
    by (cases us) auto
  then have cu: "1 \<le> count_list us CHR ''.''" by simp
  show ?thesis
  proof (cases "single_field m2")
    case True
    with t2 have "t2 = []" by (simp add: field_suffixes_def)
    with eq have "us = t1" by simp
    with d1 True show ?thesis by (simp add: reserved_names_single)
  next
    case False
    with t2 have d2: "t2 \<in> set (dotted_suffixes m2)" by (simp add: field_suffixes_def)
    from dotted_suffixes_dots [OF d2] have
      c2: "count_list t2 CHR ''.'' = (case m2 of Meter x \<Rightarrow> 1 | _ \<Rightarrow> 2)" by blast
    have sum: "count_list t1 CHR ''.'' = count_list us CHR ''.'' + count_list t2 CHR ''.''"
      using eq count_dots_append [of us t2] by simp
    have m2: "\<exists>x. m2 = Meter x"
      using c1 c2 sum cu by (cases m2; cases m1) simp_all
    then obtain x where x: "m2 = Meter x" by blast
    show ?thesis
    proof (cases m1)
      case (Histogram h)
      with d1 d2 x eq have "us = ''.histogram''"
        using histogram_meter_split [of t1 h t2 x us] by simp
      with Histogram x show ?thesis by simp
    next
      case (Timer t)
      with d1 d2 x eq have "us = ''.timer''"
        using timer_meter_split [of t1 t t2 x us] by simp
      with Timer x show ?thesis by simp
    next
      case (Meter y)
      with c1 c2 sum cu x show ?thesis by simp
    qed (use d1 in simp_all)
  qed
qed

lemma entry_names_clash:
  assumes "x \<in> set (map Name (entry_fields B (n1, m1)))"
    and "x \<in> set (map Name (entry_fields B (n2, m2)))"
    and "n1 \<noteq> n2"
  shows "n2 \<in> set (reserved_names n1 m1 m2) \<or> n1 \<in> set (reserved_names n2 m2 m1)"
proof -
  obtain ts1 where 1: "map Name (entry_fields B (n1, m1)) = map ((@) n1) ts1"
    "set ts1 \<subseteq> set (field_suffixes m1)"
    using entry_names [of B n1 m1] by blast
  obtain ts2 where 2: "map Name (entry_fields B (n2, m2)) = map ((@) n2) ts2"
    "set ts2 \<subseteq> set (field_suffixes m2)"
    using entry_names [of B n2 m2] by blast
  from assms(1,2) 1 2 obtain t1 t2 where t: "t1 \<in> set (field_suffixes m1)"
    "t2 \<in> set (field_suffixes m2)" "n1 @ t1 = n2 @ t2"
    by auto
  from t(3) obtain us where
    "(n1 = n2 @ us \<and> us @ t1 = t2) \<or> (n1 @ us = n2 \<and> t1 = us @ t2)"
    by (auto simp: append_eq_append_conv2)
  then show ?thesis
  proof
    assume a: "n1 = n2 @ us \<and> us @ t1 = t2"
    then have a1: "n1 = n2 @ us" and a2: "t2 = us @ t1" by simp_all
    from a1 assms(3) have u: "us \<noteq> []" by auto
    have "n2 @ us \<in> set (reserved_names n2 m2 m1)"
      by (rule clash_dir [OF t(2) t(1) u a2])
    then show ?thesis by (simp only: a1 [symmetric]) simp
  next
    assume a: "n1 @ us = n2 \<and> t1 = us @ t2"
    then have a1: "n2 = n1 @ us" and a2: "t1 = us @ t2" by simp_all
    from a1 assms(3) have u: "us \<noteq> []" by auto
    have "n1 @ us \<in> set (reserved_names n1 m1 m2)"
      by (rule clash_dir [OF t(1) t(2) u a2])
    then show ?thesis by (simp only: a1 [symmetric]) simp
  qed
qed

lemma names_unique_if:
  assumes "distinct (map fst r)"
    and "\<forall>a\<in>set r. \<forall>b\<in>set r. fst b \<notin> set (reserved_names (fst a) (snd a) (snd b))"
  shows "distinct (map Name (concat (map (entry_fields B) r)))"
  using assms
proof (induction r)
  case Nil
  show ?case by simp
next
  case (Cons e r)
  obtain n m where e: "e = (n, m)" by (cases e)
  have IH: "distinct (map Name (concat (map (entry_fields B) r)))"
    using Cons by simp
  have disj: "set (map Name (entry_fields B e)) \<inter> set (map Name (entry_fields B e')) = {}"
    if "e' \<in> set r" for e'
  proof -
    obtain n' m' where e': "e' = (n', m')" by (cases e')
    from that Cons.prems(1) e e' have ne: "n \<noteq> n'" by force
    from that Cons.prems(2) e e' have "n' \<notin> set (reserved_names n m m')"
      "n \<notin> set (reserved_names n' m' m)"
      by force+
    with ne entry_names_clash [of _ B n m n' m'] e e' show ?thesis by blast
  qed
  have "set (map Name (entry_fields B e)) \<inter> set (map Name (concat (map (entry_fields B) r))) = {}"
    using disj by auto
  with IH entry_names_distinct [of B n m] e show ?case by simp
qed

lemma shared_name_not_distinct:
  assumes "a \<in> set r" and "b \<in> set r" and "a \<noteq> b"
    and "x \<in> set (map Name (entry_fields B a))" and "x \<in> set (map Name (entry_fields B b))"
  shows "\<not> distinct (map Name (concat (map (entry_fields B) r)))"
proof -
  from assms(1) obtain r1 r2 where r: "r = r1 @ a # r2"
    by (auto dest: split_list)
  define N1 where "N1 = map Name (concat (map (entry_fields B) r1))"
  define Na where "Na = map Name (entry_fields B a)"
  define N2 where "N2 = map Name (concat (map (entry_fields B) r2))"
  have names: "map Name (concat (map (entry_fields B) r)) = N1 @ Na @ N2"
    by (simp add: r N1_def Na_def N2_def)
  have xa: "x \<in> set Na" using assms(4) by (simp add: Na_def)
  have "b \<in> set r1 \<or> b \<in> set r2" using assms(2,3) r by auto
  then have "x \<in> set N1 \<or> x \<in> set N2"
  proof
    assume "b \<in> set r1"
    then have "set (map Name (entry_fields B b)) \<subseteq> set N1"
      unfolding N1_def by (induction r1) auto
    with assms(5) show ?thesis by blast
  next
    assume "b \<in> set r2"
    then have "set (map Name (entry_fields B b)) \<subseteq> set N2"
      unfolding N2_def by (induction r2) auto
    with assms(5) show ?thesis by blast
  qed
  with xa show ?thesis unfolding names by auto
qed

lemma names_unique_only_if:
  assumes acc: "\<forall>n v. message_NewField B n v = None"
    and pc: "\<forall>e\<in>set r. percentiles_complete (snd e)"
    and d: "distinct (map Name (concat (map (entry_fields B) r)))"
    and a: "a \<in> set r" and b: "b \<in> set r"
  shows "fst b \<notin> set (reserved_names (fst a) (snd a) (snd b))"
proof
  assume res: "fst b \<in> set (reserved_names (fst a) (snd a) (snd b))"
  obtain n1 m1 where A: "a = (n1, m1)" by (cases a)
  obtain n2 m2 where B: "b = (n2, m2)" by (cases b)
  have fa: "map Name (entry_fields B a) = map ((@) n1) (field_suffixes m1)"
    using entry_names_full [OF acc, of m1 n1] pc a A by auto
  have fb: "map Name (entry_fields B b) = map ((@) n2) (field_suffixes m2)"
    using entry_names_full [OF acc, of m2 n2] pc b B by auto
  have "\<exists>t1 t2. t1 \<in> set (field_suffixes m1) \<and> t2 \<in> set (field_suffixes m2) \<and> t1 \<noteq> []
          \<and> n1 @ t1 = n2 @ t2 \<and> n1 \<noteq> n2"
  proof (cases "single_field m2")
    case True
    with res A B obtain t where t: "t \<in> set (dotted_suffixes m1)" "n2 = n1 @ t"
      by (auto simp: reserved_names_single)
    then have "t \<noteq> []" using dotted_suffixes_dots [of t m1] by auto
    moreover have "t \<in> set (field_suffixes m1)"
      using t(1) by (cases m1) (simp_all add: field_suffixes_def)
    moreover have "[] \<in> set (field_suffixes m2)"
      using True by (simp add: field_suffixes_def)
    ultimately show ?thesis using t(2) by (intro exI [of _ t] exI [of _ "[]"]) simp
  next
    case False
    with res A B consider
      (h) h x where "m1 = Histogram h" "m2 = Meter x" "n2 = n1 @ ''.histogram''"
      | (t) t x where "m1 = Timer t" "m2 = Meter x" "n2 = n1 @ ''.timer''"
      by (cases m1; cases m2) auto
    then show ?thesis
    proof cases
      case h
      then show ?thesis
        by (intro exI [of _ "''.histogram.count''"] exI [of _ "''.count''"])
           (simp add: field_suffixes_def)
    next
      case t
      then show ?thesis
        by (intro exI [of _ "''.timer.count''"] exI [of _ "''.count''"])
           (simp add: field_suffixes_def)
    qed
  qed
  then obtain t1 t2 where t: "t1 \<in> set (field_suffixes m1)" "t2 \<in> set (field_suffixes m2)"
    "n1 @ t1 = n2 @ t2" "n1 \<noteq> n2"
    by blast
  have "n1 @ t1 \<in> set (map Name (entry_fields B a))" using fa t(1) by simp
  moreover have "n1 @ t1 \<in> set (map Name (entry_fields B b))" using fb t(2,3) by simp
  moreover have "a \<noteq> b" using A B t(4) by simp
  ultimately show False
    using shared_name_not_distinct [OF a b] d by blast
qed

section \<open>The encoder touches no connection\<close>

lemma add_float_mapping_from_quiet:
  "quiet tr (snd (add_float_mapping_from B pref i names vals (msg, tr)))"
proof (induction names arbitrary: i msg tr)
  case Nil
  show ?case by (simp add: quiet_def)
next
  case (Cons n0 names)
  show ?case
    using Cons [of "tr @ [Log (SkippingNoValue (pref @ ''.'' @ n0))]" "i + 1" msg]
      Cons [of "tr @ [Log (SkippingField (pref @ ''.'' @ n0) (vals ! i) e)]" "i + 1" msg for e]
      Cons [of tr "i + 1" "AddField msg f" for f]
    by (simp add: quiet_def Let_def split: sum.splits)
qed

lemma each_metric_quiet: "quiet tr (snd (each_metric B name m (msg, tr)))"
proof (cases m)
  case (GaugeFloat64 v)
  then show ?thesis by (simp add: quiet_def split: sum.splits)
next
  case (Histogram h)
  then show ?thesis
    using add_float_mapping_from_quiet [of tr B]
    by (simp add: Let_def case_prod_beta add_float_mapping_def del: add_float_mapping_from.simps)
next
  case (Meter x)
  then show ?thesis
    using add_float_mapping_from_quiet [of tr B]
    by (simp add: Let_def add_float_mapping_def del: add_float_mapping_from.simps)
next
  case (Timer t)
  then show ?thesis
    using add_float_mapping_from_quiet [of tr B]
    by (simp add: Let_def case_prod_beta add_float_mapping_def del: add_float_mapping_from.simps)
qed (simp_all add: quiet_def)

lemma fold_each_metric_quiet:
  "quiet tr (snd (fold (\<lambda>(name, i). each_metric B name i) r (msg, tr)))"
proof (induction r arbitrary: msg tr)
  case Nil
  show ?case by (simp add: quiet_def)
next
  case (Cons e r)
  obtain name m where e: "e = (name, m)" by (cases e)
  obtain msg1 tr1 where s: "each_metric B name m (msg, tr) = (msg1, tr1)"
    by (cases "each_metric B name m (msg, tr)")
  have "quiet tr tr1" using each_metric_quiet [of tr B name m msg] s by simp
  moreover have "quiet tr1 (snd (fold (\<lambda>(name, i). each_metric B name i) r (msg1, tr1)))"
    by (rule Cons.IH)
  ultimately show ?case using e s by (simp add: quiet_def)
qed

lemma make_message_quiet: "quiet tr (snd (make_message B r tr))"
  by (simp add: make_message_def fold_each_metric_quiet)

text \<open>
  One run of the loop body returns without a panic, encodes exactly once and makes at least
  one dial or send.
\<close>

lemma flush_facts:
  "fst (flush B c stream hc tr) = Inr () \<and>
   encodes (snd (snd (snd (flush B c stream hc tr)))) = encodes tr + 1 \<and>
   dials tr + sends tr < dials (snd (snd (snd (flush B c stream hc tr))))
                          + sends (snd (snd (snd (flush B c stream hc tr))))"
proof -
  obtain msg0 tr0 where mm: "make_message B (registry c) tr = (msg0, tr0)"
    by (cases "make_message B (registry c) tr")
  have q: "quiet tr tr0" using make_message_quiet [of tr B "registry c"] mm by simp
  define msg where "msg = msg0\<lparr>Timestamp := Some (time_Now_UnixNano c), Uuid := uuid_NewRandom c,
                     Logger := Some ''go-metrics'', Type := Some (msgtype hc),
                     Pid := Some (pid hc), Severity := Some 100,
                     MsgHostname := Some (hostname hc), Payload := Some ''''\<rparr>"
  obtain err stream1 where en: "encoder_EncodeMessageStream B msg stream = (err, stream1)"
    by (cases "encoder_EncodeMessageStream B msg stream")
  define tr2 where "tr2 = (case err of Some e \<Rightarrow> (tr0 @ [Encode msg]) @ [Log (InjectEncodeError e)]
                           | None \<Rightarrow> tr0 @ [Encode msg])"
  have c2: "dials tr2 = dials tr \<and> sends tr2 = sends tr \<and> encodes tr2 = encodes tr + 1"
    using q by (simp add: tr2_def quiet_def split: option.splits)
  obtain r hc3 tr3 where w: "HekaClient_write B stream1 hc tr2 = (Inr r, hc3, tr3)"
    using write_facts [of B stream1 hc tr2] by (cases "HekaClient_write B stream1 hc tr2") auto
  have f: "flush B c stream hc tr =
        (Inr (), stream1, hc3, (case r of Some e \<Rightarrow> tr3 @ [Log (InjectSendError e)] | None \<Rightarrow> tr3))"
    apply (simp only: flush_def Let_def mm prod.case)
    apply (fold msg_def)
    apply (simp only: en prod.case)
    apply (fold tr2_def)
    apply (simp only: w prod.case sum.case)
    done
  show ?thesis
    using write_facts [of B stream1 hc tr2] w c2 unfolding f
    by (simp split: option.splits)
qed

section \<open>The stop channel in the loop\<close>

text \<open>Only \<^verbatim>\<open>Stop\<close> changes the stop channel: the sender and a flush leave it as it is.\<close>

lemma reconnect_stop: "stop (fst (snd (reconnect B hc tr))) = stop hc"
  by (cases "sender hc") (simp_all add: reconnect_def Let_def split: option.splits)

lemma write_stop: "stop (fst (snd (HekaClient_write B b hc tr))) = stop hc"
proof -
  obtain e1 hc1 tr1 where
    r1: "(if sender hc = None then reconnect B hc tr else (None, hc, tr)) = (e1, hc1, tr1)"
    by (rule prod_cases3)
  have s1: "stop hc1 = stop hc"
    using r1 reconnect_stop [of B hc tr] by (auto split: if_splits)
  show ?thesis
  proof (cases e1)
    case (Some err)
    with r1 s1 show ?thesis by (simp add: HekaClient_write_def)
  next
    case None
    obtain r2 tr2 where s2: "SendMessage B hc1 b tr1 = (r2, tr2)"
      by (rule prod.exhaust)
    show ?thesis
    proof (cases r2)
      case (Inl p)
      with r1 None s2 s1 show ?thesis by (simp add: HekaClient_write_def)
    next
      case (Inr eo)
      show ?thesis
      proof (cases eo)
        case None2: None
        with r1 None s2 Inr s1 show ?thesis by (simp add: HekaClient_write_def)
      next
        case Some2: (Some err)
        obtain e3 hc3 tr3 where
          r3: "reconnect B hc1 (tr2 @ [Log (InjectSendError err)]) = (e3, hc3, tr3)"
          by (rule prod_cases3)
        have s3: "stop hc3 = stop hc"
          using reconnect_stop [of B hc1 "tr2 @ [Log (InjectSendError err)]"] r3 s1 by simp
        show ?thesis
        proof (cases e3)
          case Some3: (Some err2)
          with r1 None s2 Inr Some2 r3 s3 show ?thesis
            by (simp add: HekaClient_write_def)
        next
          case None3: None
          obtain r4 tr4 where s4: "SendMessage B hc3 b tr3 = (r4, tr4)"
            by (rule prod.exhaust)
          from r1 None s2 Inr Some2 r3 None3 s4 s3 show ?thesis
            by (cases r4) (simp_all add: HekaClient_write_def)
        qed
      qed
    qed
  qed
qed

lemma flush_stop: "stop (fst (snd (snd (flush B c stream hc tr)))) = stop hc"
proof -
  have "fst (snd (snd (flush B c stream hc tr))) =
        fst (snd (HekaClient_write B
          (snd (encoder_EncodeMessageStream B
             ((fst (make_message B (registry c) tr))
                \<lparr>Timestamp := Some (time_Now_UnixNano c), Uuid := uuid_NewRandom c,
                  Logger := Some ''go-metrics'', Type := Some (msgtype hc),
                  Pid := Some (pid hc), Severity := Some 100,
                  MsgHostname := Some (hostname hc), Payload := Some ''''\<rparr>) stream))
          hc
          (case fst (encoder_EncodeMessageStream B
             ((fst (make_message B (registry c) tr))
                \<lparr>Timestamp := Some (time_Now_UnixNano c), Uuid := uuid_NewRandom c,
                  Logger := Some ''go-metrics'', Type := Some (msgtype hc),
                  Pid := Some (pid hc), Severity := Some 100,
                  MsgHostname := Some (hostname hc), Payload := Some ''''\<rparr>) stream) of
             None \<Rightarrow> snd (make_message B (registry c) tr) @ [Encode
                ((fst (make_message B (registry c) tr))
                \<lparr>Timestamp := Some (time_Now_UnixNano c), Uuid := uuid_NewRandom c,
                  Logger := Some ''go-metrics'', Type := Some (msgtype hc),
                  Pid := Some (pid hc), Severity := Some 100,
                  MsgHostname := Some (hostname hc), Payload := Some ''''\<rparr>)]
           | Some e \<Rightarrow> (snd (make_message B (registry c) tr) @ [Encode
                ((fst (make_message B (registry c) tr))
                \<lparr>Timestamp := Some (time_Now_UnixNano c), Uuid := uuid_NewRandom c,
                  Logger := Some ''go-metrics'', Type := Some (msgtype hc),
                  Pid := Some (pid hc), Severity := Some 100,
                  MsgHostname := Some (hostname hc), Payload := Some ''''\<rparr>)])
                  @ [Log (InjectEncodeError e)])))"
    by (simp add: flush_def Let_def case_prod_beta split: sum.splits prod.splits)
  then show ?thesis by (simp add: write_stop)
qed

lemma Stop_calls_closed:
  "stop hc = ChanClosed \<Longrightarrow> Stop_calls (Suc n) hc = Inl CloseOfClosedChannel"
  by (simp add: Stop_def)

text \<open>
  Cycles without a call of \<^verbatim>\<open>Stop\<close> on an open channel: the loop flushes and waits again,
  the channel still open.
\<close>

lemma LogHeka_loop_stop_free:
  assumes "stop hc = ChanOpen" and "\<forall>c\<in>set pre. stop_calls c = 0"
  shows "\<exists>stream' hc' tr'. stop hc' = ChanOpen \<and>
           LogHeka_loop B (pre @ rest) stream hc tr = LogHeka_loop B rest stream' hc' tr'"
  using assms
proof (induction pre arbitrary: stream hc tr)
  case Nil
  then show ?case by auto
next
  case (Cons c pre)
  obtain u s1 hc1 tr1 where f: "flush B c stream hc tr = (Inr u, s1, hc1, tr1)"
    using flush_facts [of B c stream hc tr]
    by (cases "flush B c stream hc tr") auto
  have o: "stop hc1 = ChanOpen"
    using flush_stop [of B c stream hc tr] f Cons.prems(1) by simp
  have "LogHeka_loop B ((c # pre) @ rest) stream hc tr = LogHeka_loop B (pre @ rest) s1 hc1 tr1"
    using Cons.prems f by (simp add: chan_recv_def)
  moreover have "\<exists>stream' hc' tr'. stop hc' = ChanOpen \<and>
      LogHeka_loop B (pre @ rest) s1 hc1 tr1 = LogHeka_loop B rest stream' hc' tr'"
    using Cons.IH [OF o] Cons.prems(2) by simp
  ultimately show ?case by simp
qed

lemma LogHeka_loop_stop_returns:
  assumes "stop hc = ChanOpen" and "stop_calls c = 1" and "\<not> timer_chosen c"
  shows "fst (LogHeka_loop B (c # cs) stream hc tr) = Returned"
proof -
  obtain u s1 hc1 tr1 where
    f: "flush B c stream (hc\<lparr>stop := ChanClosed\<rparr>) tr = (Inr u, s1, hc1, tr1)"
    using flush_facts [of B c stream "hc\<lparr>stop := ChanClosed\<rparr>" tr]
    by (cases "flush B c stream (hc\<lparr>stop := ChanClosed\<rparr>) tr") auto
  show ?thesis using assms f by (simp add: Stop_def chan_recv_def)
qed

lemma LogHeka_loop_second_stop:
  assumes "stop hc = ChanOpen" and "2 \<le> stop_calls c"
  shows "fst (LogHeka_loop B (c # cs) stream hc tr) = Crashed CloseOfClosedChannel"
proof -
  obtain n where n: "stop_calls c = Suc (Suc n)"
    using assms(2) by (metis Suc_le_D numeral_2_eq_2 Suc_le_mono)
  show ?thesis using assms(1) n by (simp add: Stop_def)
qed

lemma LogHeka_loop_stop_on_closed:
  assumes "stop hc = ChanClosed" and "1 \<le> stop_calls c"
  shows "fst (LogHeka_loop B (c # cs) stream hc tr) = Crashed CloseOfClosedChannel"
proof -
  obtain n where n: "stop_calls c = Suc n"
    using assms(2) by (metis Suc_le_D One_nat_def)
  show ?thesis using Stop_calls_closed [OF assms(1), of n] n by simp
qed

section \<open>Properties of the sender\<close>

text \<open>
  C1. A \<^verbatim>\<open>write\<close> that starts with no live sender, connects, fails to transmit, reconnects
  and transmits again returns what the second transmit returns: success when it succeeds,
  its error when it fails. In both cases the client ends with the sender made by the
  reconnect, so it is connected also after two failed transmits. The events of the call
  are exactly: connect, send, the logged send error, the close of the first sender,
  connect, send. The sender made by the reconnect is never closed, whatever its send
  returns. Two dials and two sends are made.
\<close>

theorem write_retry_from_disconnected:
  assumes "sender hc = None"
    and "client_NewNetworkSender B (dials tr) (Scheme (connect_s hc)) (Host (connect_s hc)) = None"
    and "sender_SendMessage B (sends tr) (dials tr) b = Some err"
    and "client_NewNetworkSender B (dials tr + 1) (Scheme (connect_s hc)) (Host (connect_s hc)) = None"
  shows "HekaClient_write B b hc tr =
           (Inr (sender_SendMessage B (sends tr + 1) (dials tr + 1) b),
            hc\<lparr>sender := Some (dials tr + 1)\<rparr>,
            tr @ [Log (Connecting (connect_s hc)),
                  Dial (Scheme (connect_s hc)) (Host (connect_s hc)),
                  Send (dials tr) b,
                  Log (InjectSendError err),
                  Close (dials tr),
                  Log (Connecting (connect_s hc)),
                  Dial (Scheme (connect_s hc)) (Host (connect_s hc)),
                  Send (dials tr + 1) b]) \<and>
         fst (HekaClient_write B b hc tr) = Inr (sender_SendMessage B (sends tr + 1) (dials tr + 1) b) \<and>
         sender (fst (snd (HekaClient_write B b hc tr))) = Some (dials tr + 1) \<and>
         dials (snd (snd (HekaClient_write B b hc tr))) = dials tr + 2 \<and>
         sends (snd (snd (HekaClient_write B b hc tr))) = sends tr + 2"
  using assms
  by (simp add: HekaClient_write_def reconnect_def SendMessage_def Let_def)

theorem write_retry_from_disconnected_witness:
  "sender example_client = None \<and>
   client_NewNetworkSender
     (example_boundary\<lparr>sender_SendMessage :=
        (\<lambda>k c b. if k = 0 then Some (External ''broken pipe'') else None)\<rparr>)
     0 ''tcp'' ''localhost:5565'' = None \<and>
   sender_SendMessage
     (example_boundary\<lparr>sender_SendMessage :=
        (\<lambda>k c b. if k = 0 then Some (External ''broken pipe'') else None)\<rparr>)
     0 0 [1, 2, 3] = Some (External ''broken pipe'') \<and>
   client_NewNetworkSender
     (example_boundary\<lparr>sender_SendMessage :=
        (\<lambda>k c b. if k = 0 then Some (External ''broken pipe'') else None)\<rparr>)
     1 ''tcp'' ''localhost:5565'' = None \<and>
   fst (HekaClient_write
          (example_boundary\<lparr>sender_SendMessage :=
             (\<lambda>k c b. if k = 0 then Some (External ''broken pipe'') else None)\<rparr>)
          [1, 2, 3] example_client []) = Inr None \<and>
   sender (fst (snd (HekaClient_write
          (example_boundary\<lparr>sender_SendMessage :=
             (\<lambda>k c b. if k = 0 then Some (External ''broken pipe'') else None)\<rparr>)
          [1, 2, 3] example_client []))) = Some 1"
  using write_retry_from_disconnected
    [of example_client
        "example_boundary\<lparr>sender_SendMessage :=
             (\<lambda>k c b. if k = 0 then Some (External ''broken pipe'') else None)\<rparr>"
        "[]" "[1, 2, 3]" "External ''broken pipe''"]
  by (simp add: example_boundary_def example_client_def)

text \<open>
  With a collector that accepts every connection and fails every transmit, the call returns
  the failure and the client holds sender 1, which has not been closed.
\<close>

theorem write_both_transmits_fail_stays_connected:
  "fst (HekaClient_write
          (example_boundary\<lparr>sender_SendMessage := (\<lambda>k c b. Some (External ''broken pipe''))\<rparr>)
          [1, 2, 3] example_client []) = Inr (Some (External ''broken pipe'')) \<and>
   sender (fst (snd (HekaClient_write
          (example_boundary\<lparr>sender_SendMessage := (\<lambda>k c b. Some (External ''broken pipe''))\<rparr>)
          [1, 2, 3] example_client []))) = Some 1 \<and>
   snd (snd (HekaClient_write
          (example_boundary\<lparr>sender_SendMessage := (\<lambda>k c b. Some (External ''broken pipe''))\<rparr>)
          [1, 2, 3] example_client [])) =
     [Log (Connecting \<lparr>Scheme = ''tcp'', Host = ''localhost:5565''\<rparr>),
      Dial ''tcp'' ''localhost:5565'',
      Send 0 [1, 2, 3],
      Log (InjectSendError (External ''broken pipe'')),
      Close 0,
      Log (Connecting \<lparr>Scheme = ''tcp'', Host = ''localhost:5565''\<rparr>),
      Dial ''tcp'' ''localhost:5565'',
      Send 1 [1, 2, 3]]"
  by (simp add: HekaClient_write_def reconnect_def SendMessage_def Let_def
      example_boundary_def example_client_def)

text \<open>
  C6. One call of \<^verbatim>\<open>write\<close> makes at most two calls of \<^verbatim>\<open>NewNetworkSender\<close> and at most
  two calls of \<^verbatim>\<open>SendMessage\<close>, whatever the client's state and whatever the results of
  the calls.
\<close>

theorem write_attempt_bound:
  "dials (snd (snd (HekaClient_write B b hc tr))) \<le> dials tr + 2 \<and>
   sends (snd (snd (HekaClient_write B b hc tr))) \<le> sends tr + 2"
proof -
  obtain e1 hc1 tr1 where
    r1: "(if sender hc = None then reconnect B hc tr else (None, hc, tr)) = (e1, hc1, tr1)"
    by (rule prod_cases3)
  have b1: "dials tr1 \<le> dials tr + 1 \<and> sends tr1 = sends tr"
    using r1 reconnect_dials [of B hc tr e1 hc1 tr1] reconnect_sends [of B hc tr e1 hc1 tr1]
    by (simp split: if_splits)
  show ?thesis
  proof (cases e1)
    case (Some err)
    with r1 b1 show ?thesis by (simp add: HekaClient_write_def)
  next
    case None
    obtain r2 tr2 where s2: "SendMessage B hc1 b tr1 = (r2, tr2)"
      by (rule prod.exhaust)
    have b2: "dials tr2 = dials tr1 \<and> sends tr2 \<le> sends tr1 + 1"
      using SendMessage_dials [OF s2] SendMessage_sends [OF s2] by simp
    show ?thesis
    proof (cases r2)
      case (Inl p)
      with r1 None s2 b1 b2 show ?thesis by (simp add: HekaClient_write_def)
    next
      case (Inr eo)
      show ?thesis
      proof (cases eo)
        case None2: None
        with r1 None s2 Inr b1 b2 show ?thesis by (simp add: HekaClient_write_def)
      next
        case Some2: (Some err)
        obtain e3 hc3 tr3 where
          r3: "reconnect B hc1 (tr2 @ [Log (InjectSendError err)]) = (e3, hc3, tr3)"
          by (rule prod_cases3)
        have b3: "dials tr3 = dials tr2 + 1 \<and> sends tr3 = sends tr2"
          using reconnect_dials [OF r3] reconnect_sends [OF r3] by simp
        show ?thesis
        proof (cases e3)
          case Some3: (Some err2)
          with r1 None s2 Inr Some2 r3 b1 b2 b3 show ?thesis
            by (simp add: HekaClient_write_def)
        next
          case None3: None
          obtain r4 tr4 where s4: "SendMessage B hc3 b tr3 = (r4, tr4)"
            by (rule prod.exhaust)
          have b4: "dials tr4 = dials tr3 \<and> sends tr4 \<le> sends tr3 + 1"
            using SendMessage_dials [OF s4] SendMessage_sends [OF s4] by simp
          from r1 None s2 Inr Some2 r3 None3 s4 b1 b2 b3 b4 show ?thesis
            by (cases r4) (simp_all add: HekaClient_write_def)
        qed
      qed
    qed
  qed
qed

section \<open>Properties of construction\<close>

text \<open>
  C7. \<^verbatim>\<open>NewHekaClient\<close> leaves the trace as it is, so it dials nothing, and a client it
  returns has scheme \<^verbatim>\<open>tcp\<close> or \<^verbatim>\<open>udp\<close> and no sender yet. For a connection string that
  parses: when its scheme is neither \<^verbatim>\<open>tcp\<close> nor \<^verbatim>\<open>udp\<close> the result is the scheme error
  and no client; when its scheme is \<^verbatim>\<open>tcp\<close> or \<^verbatim>\<open>udp\<close> the result is a client for that
  URL, and the error returned with it is what \<^verbatim>\<open>os.Hostname\<close> returned, never one about
  the scheme.
\<close>

theorem NewHekaClient_scheme:
  "snd (NewHekaClient B connect mtype tr) = tr \<and>
   (\<forall>hc. fst (fst (NewHekaClient B connect mtype tr)) = Some hc \<longrightarrow>
      (Scheme (connect_s hc) = ''tcp'' \<or> Scheme (connect_s hc) = ''udp'') \<and> sender hc = None) \<and>
   (\<forall>u. url_ParseRequestURI B connect = Inr u \<longrightarrow>
      (Scheme u \<noteq> ''tcp'' \<and> Scheme u \<noteq> ''udp'' \<longrightarrow>
         fst (NewHekaClient B connect mtype tr) = (None, Some (SchemeNotSupported (Scheme u)))) \<and>
      (Scheme u = ''tcp'' \<or> Scheme u = ''udp'' \<longrightarrow>
         (\<exists>hc. fst (fst (NewHekaClient B connect mtype tr)) = Some hc \<and> connect_s hc = u) \<and>
         snd (fst (NewHekaClient B connect mtype tr)) =
           (case os_Hostname B of Inl err \<Rightarrow> Some err | Inr h \<Rightarrow> None)))"
  by (auto simp: NewHekaClient_def split: sum.splits)

theorem NewHekaClient_scheme_witness:
  "url_ParseRequestURI
     (example_boundary\<lparr>url_ParseRequestURI := (\<lambda>s. Inr \<lparr>Scheme = ''http'', Host = ''host:1''\<rparr>)\<rparr>)
     ''http://host:1'' = Inr \<lparr>Scheme = ''http'', Host = ''host:1''\<rparr> \<and>
   NewHekaClient
     (example_boundary\<lparr>url_ParseRequestURI := (\<lambda>s. Inr \<lparr>Scheme = ''http'', Host = ''host:1''\<rparr>)\<rparr>)
     ''http://host:1'' ''teststats'' [] = ((None, Some (SchemeNotSupported ''http'')), []) \<and>
   url_ParseRequestURI example_boundary ''tcp://localhost:5565''
     = Inr \<lparr>Scheme = ''tcp'', Host = ''localhost:5565''\<rparr> \<and>
   NewHekaClient example_boundary ''tcp://localhost:5565'' ''teststats'' []
     = ((Some example_client, None), [])"
proof -
  have h1: "url_ParseRequestURI
     (example_boundary\<lparr>url_ParseRequestURI := (\<lambda>s. Inr \<lparr>Scheme = ''http'', Host = ''host:1''\<rparr>)\<rparr>)
     ''http://host:1'' = Inr \<lparr>Scheme = ''http'', Host = ''host:1''\<rparr>"
    by simp
  have h2: "url_ParseRequestURI example_boundary ''tcp://localhost:5565''
     = Inr \<lparr>Scheme = ''tcp'', Host = ''localhost:5565''\<rparr>"
    by (simp add: example_boundary_def)
  have "NewHekaClient
     (example_boundary\<lparr>url_ParseRequestURI := (\<lambda>s. Inr \<lparr>Scheme = ''http'', Host = ''host:1''\<rparr>)\<rparr>)
     ''http://host:1'' ''teststats'' ([] :: rat event list)
       = ((None, Some (SchemeNotSupported ''http'')), [])"
    using h1 NewHekaClient_scheme
      [of "example_boundary\<lparr>url_ParseRequestURI :=
             (\<lambda>s. Inr \<lparr>Scheme = ''http'', Host = ''host:1''\<rparr>)\<rparr>"
          "''http://host:1''" "''teststats''" "[]"]
    by (simp add: prod_eq_iff)
  moreover have "NewHekaClient example_boundary ''tcp://localhost:5565'' ''teststats''
      ([] :: rat event list) = ((Some example_client, None), [])"
    by (simp add: NewHekaClient_def example_boundary_def example_client_def)
  ultimately show ?thesis using h1 h2 by simp
qed

section \<open>Properties of the encoder\<close>

text \<open>
  C4. When \<^verbatim>\<open>Percentiles\<close> returns one value for each of the five requested percentiles
  and \<^verbatim>\<open>NewField\<close> returns no error, a histogram \<open>name\<close> adds to the message, in this
  order, the float fields \<open>name.histogram.\<close> 50-percentile, 75-percentile, 95-percentile,
  99-percentile, 999-percentile, mean, std-dev, each with the value at the same position,
  and then the integer fields count, min, max; a timer \<open>name\<close> adds the same under
  \<open>name.timer.\<close>, with one-minute, five-minute, fifteen-minute, mean-rate after std-dev.
  The percentiles are requested in ascending order.
\<close>

theorem histogram_timer_fields:
  assumes "\<forall>n v. message_NewField B n v = None"
    and "h_Percentiles h [0.5, 0.75, 0.95, 0.99, 0.999] = [p50, p75, p95, p99, p999]"
    and "t_Percentiles t [0.5, 0.75, 0.95, 0.99, 0.999] = [q50, q75, q95, q99, q999]"
  shows "Fields (fst (make_message B (r1 @ (name, Histogram h) # r2) tr)) =
     Fields (fst (make_message B r1 tr))
     @ [\<lparr>Name = name @ ''.histogram.50-percentile'', Representation = '''', Value = ValueDouble p50\<rparr>,
        \<lparr>Name = name @ ''.histogram.75-percentile'', Representation = '''', Value = ValueDouble p75\<rparr>,
        \<lparr>Name = name @ ''.histogram.95-percentile'', Representation = '''', Value = ValueDouble p95\<rparr>,
        \<lparr>Name = name @ ''.histogram.99-percentile'', Representation = '''', Value = ValueDouble p99\<rparr>,
        \<lparr>Name = name @ ''.histogram.999-percentile'', Representation = '''', Value = ValueDouble p999\<rparr>,
        \<lparr>Name = name @ ''.histogram.mean'', Representation = '''', Value = ValueDouble (h_Mean h)\<rparr>,
        \<lparr>Name = name @ ''.histogram.std-dev'', Representation = '''', Value = ValueDouble (h_StdDev h)\<rparr>,
        \<lparr>Name = name @ ''.histogram.count'', Representation = name @ ''.histogram.count'',
           Value = ValueInteger (h_Count h)\<rparr>,
        \<lparr>Name = name @ ''.histogram.min'', Representation = name @ ''.histogram.min'',
           Value = ValueInteger (h_Min h)\<rparr>,
        \<lparr>Name = name @ ''.histogram.max'', Representation = name @ ''.histogram.max'',
           Value = ValueInteger (h_Max h)\<rparr>]
     @ Fields (fst (make_message B r2 tr)) \<and>
   Fields (fst (make_message B (r1 @ (name, Timer t) # r2) tr)) =
     Fields (fst (make_message B r1 tr))
     @ [\<lparr>Name = name @ ''.timer.50-percentile'', Representation = '''', Value = ValueDouble q50\<rparr>,
        \<lparr>Name = name @ ''.timer.75-percentile'', Representation = '''', Value = ValueDouble q75\<rparr>,
        \<lparr>Name = name @ ''.timer.95-percentile'', Representation = '''', Value = ValueDouble q95\<rparr>,
        \<lparr>Name = name @ ''.timer.99-percentile'', Representation = '''', Value = ValueDouble q99\<rparr>,
        \<lparr>Name = name @ ''.timer.999-percentile'', Representation = '''', Value = ValueDouble q999\<rparr>,
        \<lparr>Name = name @ ''.timer.mean'', Representation = '''', Value = ValueDouble (t_Mean t)\<rparr>,
        \<lparr>Name = name @ ''.timer.std-dev'', Representation = '''', Value = ValueDouble (t_StdDev t)\<rparr>,
        \<lparr>Name = name @ ''.timer.one-minute'', Representation = '''', Value = ValueDouble (t_Rate1 t)\<rparr>,
        \<lparr>Name = name @ ''.timer.five-minute'', Representation = '''', Value = ValueDouble (t_Rate5 t)\<rparr>,
        \<lparr>Name = name @ ''.timer.fifteen-minute'', Representation = '''', Value = ValueDouble (t_Rate15 t)\<rparr>,
        \<lparr>Name = name @ ''.timer.mean-rate'', Representation = '''', Value = ValueDouble (t_RateMean t)\<rparr>,
        \<lparr>Name = name @ ''.timer.count'', Representation = '''', Value = ValueInteger (t_Count t)\<rparr>,
        \<lparr>Name = name @ ''.timer.min'', Representation = '''', Value = ValueInteger (t_Min t)\<rparr>,
        \<lparr>Name = name @ ''.timer.max'', Representation = '''', Value = ValueInteger (t_Max t)\<rparr>]
     @ Fields (fst (make_message B r2 tr)) \<and>
   sorted [0.5, 0.75, 0.95, 0.99, 0.999 :: rat]"
proof -
  have H: "entry_fields B (name, Histogram h) =
      [\<lparr>Name = name @ ''.histogram.50-percentile'', Representation = '''', Value = ValueDouble p50\<rparr>,
        \<lparr>Name = name @ ''.histogram.75-percentile'', Representation = '''', Value = ValueDouble p75\<rparr>,
        \<lparr>Name = name @ ''.histogram.95-percentile'', Representation = '''', Value = ValueDouble p95\<rparr>,
        \<lparr>Name = name @ ''.histogram.99-percentile'', Representation = '''', Value = ValueDouble p99\<rparr>,
        \<lparr>Name = name @ ''.histogram.999-percentile'', Representation = '''', Value = ValueDouble p999\<rparr>,
        \<lparr>Name = name @ ''.histogram.mean'', Representation = '''', Value = ValueDouble (h_Mean h)\<rparr>,
        \<lparr>Name = name @ ''.histogram.std-dev'', Representation = '''', Value = ValueDouble (h_StdDev h)\<rparr>,
        \<lparr>Name = name @ ''.histogram.count'', Representation = name @ ''.histogram.count'',
           Value = ValueInteger (h_Count h)\<rparr>,
        \<lparr>Name = name @ ''.histogram.min'', Representation = name @ ''.histogram.min'',
           Value = ValueInteger (h_Min h)\<rparr>,
        \<lparr>Name = name @ ''.histogram.max'', Representation = name @ ''.histogram.max'',
           Value = ValueInteger (h_Max h)\<rparr>]"
    using assms(1,2)
    by (simp add: entry_fields_def NewInt64Field_def AddField_def Let_def case_prod_beta
        add_float_mapping_Fields)
  have T: "entry_fields B (name, Timer t) =
      [\<lparr>Name = name @ ''.timer.50-percentile'', Representation = '''', Value = ValueDouble q50\<rparr>,
        \<lparr>Name = name @ ''.timer.75-percentile'', Representation = '''', Value = ValueDouble q75\<rparr>,
        \<lparr>Name = name @ ''.timer.95-percentile'', Representation = '''', Value = ValueDouble q95\<rparr>,
        \<lparr>Name = name @ ''.timer.99-percentile'', Representation = '''', Value = ValueDouble q99\<rparr>,
        \<lparr>Name = name @ ''.timer.999-percentile'', Representation = '''', Value = ValueDouble q999\<rparr>,
        \<lparr>Name = name @ ''.timer.mean'', Representation = '''', Value = ValueDouble (t_Mean t)\<rparr>,
        \<lparr>Name = name @ ''.timer.std-dev'', Representation = '''', Value = ValueDouble (t_StdDev t)\<rparr>,
        \<lparr>Name = name @ ''.timer.one-minute'', Representation = '''', Value = ValueDouble (t_Rate1 t)\<rparr>,
        \<lparr>Name = name @ ''.timer.five-minute'', Representation = '''', Value = ValueDouble (t_Rate5 t)\<rparr>,
        \<lparr>Name = name @ ''.timer.fifteen-minute'', Representation = '''', Value = ValueDouble (t_Rate15 t)\<rparr>,
        \<lparr>Name = name @ ''.timer.mean-rate'', Representation = '''', Value = ValueDouble (t_RateMean t)\<rparr>,
        \<lparr>Name = name @ ''.timer.count'', Representation = '''', Value = ValueInteger (t_Count t)\<rparr>,
        \<lparr>Name = name @ ''.timer.min'', Representation = '''', Value = ValueInteger (t_Min t)\<rparr>,
        \<lparr>Name = name @ ''.timer.max'', Representation = '''', Value = ValueInteger (t_Max t)\<rparr>]"
    using assms(1,3)
    by (simp add: entry_fields_def NewInt64Field_def AddField_def Let_def case_prod_beta
        add_float_mapping_Fields)
  have S: "sorted [0.5, 0.75, 0.95, 0.99, 0.999 :: rat]" by simp
  show ?thesis
    unfolding make_message_Fields using S by (simp add: H T)
qed

theorem histogram_timer_fields_witness:
  "(\<forall>n v. message_NewField example_boundary n v = None) \<and>
   h_Percentiles example_histogram [0.5, 0.75, 0.95, 0.99, 0.999] = [40, 60, 90, 99, 100] \<and>
   t_Percentiles example_timer [0.5, 0.75, 0.95, 0.99, 0.999] = [40, 60, 90, 99, 100] \<and>
   map Name (Fields (fst (make_message example_boundary [(''x'', Histogram example_histogram)] []))) =
     [''x.histogram.50-percentile'', ''x.histogram.75-percentile'', ''x.histogram.95-percentile'',
      ''x.histogram.99-percentile'', ''x.histogram.999-percentile'', ''x.histogram.mean'',
      ''x.histogram.std-dev'', ''x.histogram.count'', ''x.histogram.min'', ''x.histogram.max''] \<and>
   map (\<lambda>f. (Name f, Value f))
     (Fields (fst (make_message example_boundary [(''x'', Timer example_timer)] []))) =
     [(''x.timer.50-percentile'', ValueDouble 40), (''x.timer.75-percentile'', ValueDouble 60),
      (''x.timer.95-percentile'', ValueDouble 90), (''x.timer.99-percentile'', ValueDouble 99),
      (''x.timer.999-percentile'', ValueDouble 100), (''x.timer.mean'', ValueDouble 50),
      (''x.timer.std-dev'', ValueDouble 20), (''x.timer.one-minute'', ValueDouble 2),
      (''x.timer.five-minute'', ValueDouble 3), (''x.timer.fifteen-minute'', ValueDouble 4),
      (''x.timer.mean-rate'', ValueDouble 5), (''x.timer.count'', ValueInteger 10),
      (''x.timer.min'', ValueInteger 1), (''x.timer.max'', ValueInteger 100)]"
proof -
  have h1: "\<forall>n v. message_NewField example_boundary n v = None"
    by (simp add: example_boundary_def)
  have h2: "h_Percentiles example_histogram [0.5, 0.75, 0.95, 0.99, 0.999] = [40, 60, 90, 99, 100]"
    by (simp add: example_histogram_def)
  have h3: "t_Percentiles example_timer [0.5, 0.75, 0.95, 0.99, 0.999] = [40, 60, 90, 99, 100]"
    by (simp add: example_timer_def)
  have e: "Fields (fst (make_message example_boundary [] [])) = []"
    by (simp add: make_message_def)
  show ?thesis
    using h1 h2 h3 histogram_timer_fields [OF h1 h2 h3, of "[]" "''x''" "[]" "[]"]
    by (simp add: e example_histogram_def example_timer_def)
qed

text \<open>
  C5. A counter or a gauge adds to the message exactly one field, named as the metric, with
  its value as an integer; a float gauge adds exactly one field, named as the metric, with
  its value as a double, when \<^verbatim>\<open>NewField\<close> returns no error for it. The fields stand between
  those of the entries visited before and after.
\<close>

theorem counter_gauge_single_field:
  "Fields (fst (make_message B (r1 @ (name, Counter c) # r2) tr)) =
     Fields (fst (make_message B r1 tr))
     @ [\<lparr>Name = name, Representation = '''', Value = ValueInteger c\<rparr>]
     @ Fields (fst (make_message B r2 tr)) \<and>
   Fields (fst (make_message B (r1 @ (name, Gauge g) # r2) tr)) =
     Fields (fst (make_message B r1 tr))
     @ [\<lparr>Name = name, Representation = '''', Value = ValueInteger g\<rparr>]
     @ Fields (fst (make_message B r2 tr)) \<and>
   (message_NewField B name v = None \<longrightarrow>
    Fields (fst (make_message B (r1 @ (name, GaugeFloat64 v) # r2) tr)) =
     Fields (fst (make_message B r1 tr))
     @ [\<lparr>Name = name, Representation = '''', Value = ValueDouble v\<rparr>]
     @ Fields (fst (make_message B r2 tr)))"
  by (simp add: make_message_Fields entry_fields_def NewInt64Field_def NewField_def AddField_def)

text \<open>The registry with the counter \<open>requests\<close> at 42 and the float gauge \<open>cpu.load\<close> at 0.73.\<close>

theorem counter_gauge_single_field_witness:
  "message_NewField example_boundary ''cpu.load'' 0.73 = None \<and>
   Fields (fst (make_message example_boundary
      [(''requests'', Counter 42), (''cpu.load'', GaugeFloat64 0.73)] [])) =
     [\<lparr>Name = ''requests'', Representation = '''', Value = ValueInteger 42\<rparr>,
      \<lparr>Name = ''cpu.load'', Representation = '''', Value = ValueDouble 0.73\<rparr>]"
  using counter_gauge_single_field
    [of example_boundary "[(''requests'', Counter 42)]" "''cpu.load''" 0 "[]" "[]" 0 "0.73"]
    counter_gauge_single_field
    [of example_boundary "[]" "''requests''" 42 "[]" "[]" 0 "0.73"]
  by (simp add: example_boundary_def make_message_def)

text \<open>
  C8. When there are fewer values than names, \<^verbatim>\<open>add_float_mapping\<close> adds a field for every
  index that has a value, unless \<^verbatim>\<open>NewField\<close> returns an error for that very field, and
  none for the names from index \<open>length vals\<close> on; it always returns the message, with
  the fields it had before still in front.
\<close>

theorem add_float_mapping_short_values:
  assumes "length vals < length names"
  shows "Fields (fst (add_float_mapping B pref names vals (msg, tr))) =
     Fields msg @
     map (\<lambda>i. \<lparr>Name = pref @ ''.'' @ names ! i, Representation = '''',
                Value = ValueDouble (vals ! i)\<rparr>)
       (filter (\<lambda>i. message_NewField B (pref @ ''.'' @ names ! i) (vals ! i) = None)
          [0..<length vals]) \<and>
   ((\<forall>i<length vals. message_NewField B (pref @ ''.'' @ names ! i) (vals ! i) = None) \<longrightarrow>
     Fields (fst (add_float_mapping B pref names vals (msg, tr))) =
       Fields msg @
       map (\<lambda>i. \<lparr>Name = pref @ ''.'' @ names ! i, Representation = '''',
                  Value = ValueDouble (vals ! i)\<rparr>) [0..<length vals])"
proof -
  have "zip names vals = map (\<lambda>i. (names ! i, vals ! i)) [0..<length vals]"
    using assms by (simp add: zip_nth_upt)
  then have 1: "Fields (fst (add_float_mapping B pref names vals (msg, tr))) =
     Fields msg @
     map (\<lambda>i. \<lparr>Name = pref @ ''.'' @ names ! i, Representation = '''',
                Value = ValueDouble (vals ! i)\<rparr>)
       (filter (\<lambda>i. message_NewField B (pref @ ''.'' @ names ! i) (vals ! i) = None)
          [0..<length vals])"
    by (simp add: add_float_mapping_Fields filter_map comp_def)
  have "filter (\<lambda>i. message_NewField B (pref @ ''.'' @ names ! i) (vals ! i) = None)
          [0..<length vals] = [0..<length vals]"
    if "\<forall>i<length vals. message_NewField B (pref @ ''.'' @ names ! i) (vals ! i) = None"
    using that by (simp add: filter_id_conv)
  with 1 show ?thesis by simp
qed

theorem add_float_mapping_short_values_witness:
  "length [10, 20 :: rat] < length [''one-minute'', ''five-minute'', ''fifteen-minute'', ''mean''] \<and>
   Fields (fst (add_float_mapping example_boundary ''m''
                  [''one-minute'', ''five-minute'', ''fifteen-minute'', ''mean''] [10, 20]
                  (empty_Message, []))) =
     [\<lparr>Name = ''m.one-minute'', Representation = '''', Value = ValueDouble 10\<rparr>,
      \<lparr>Name = ''m.five-minute'', Representation = '''', Value = ValueDouble 20\<rparr>]"
proof -
  have h: "length [10, 20 :: rat] < length [''one-minute'', ''five-minute'', ''fifteen-minute'', ''mean'']"
    by simp
  have u: "[0..<2] = [0, 1]"
    by (simp add: upt_rec)
  show ?thesis
    using h add_float_mapping_short_values [OF h, of example_boundary "''m''" empty_Message "[]"]
    by (simp add: u example_boundary_def)
qed

text \<open>
  C9. When the metric names of the registry are distinct and no metric bears a name
  reserved by another one (no counter or gauge is named like a field derived from another
  metric, no meter like a histogram followed by \<^verbatim>\<open>.histogram\<close> or a timer followed by
  \<^verbatim>\<open>.timer\<close>), no two fields of the message have the same name. Nothing less will do:
  when no field is skipped (\<^verbatim>\<open>NewField\<close> returns no error, \<^verbatim>\<open>Percentiles\<close> returns five
  values) and the field names are unique, no metric bears a reserved name.
\<close>

theorem field_names_unique:
  "(distinct (map fst r) \<and>
    (\<forall>a\<in>set r. \<forall>b\<in>set r. fst b \<notin> set (reserved_names (fst a) (snd a) (snd b)))
      \<longrightarrow> distinct (map Name (Fields (fst (make_message B r tr))))) \<and>
   ((\<forall>n v. message_NewField B n v = None) \<and> (\<forall>e\<in>set r. percentiles_complete (snd e)) \<and>
    distinct (map Name (Fields (fst (make_message B r tr))))
      \<longrightarrow> (\<forall>a\<in>set r. \<forall>b\<in>set r. fst b \<notin> set (reserved_names (fst a) (snd a) (snd b))))"
  using names_unique_if [of r B] names_unique_only_if [of B r]
  unfolding make_message_Fields by blast

theorem field_names_unique_witness:
  "distinct (map fst example_registry) \<and>
   list_all (\<lambda>a. list_all (\<lambda>b. fst b \<notin> set (reserved_names (fst a) (snd a) (snd b)))
                     example_registry) example_registry \<and>
   (\<forall>n v. message_NewField example_boundary n v = None) \<and>
   list_all (\<lambda>e. percentiles_complete (snd e)) example_registry \<and>
   distinct (map Name (Fields (fst (make_message example_boundary example_registry [])))) \<and>
   map Name (Fields (fst (make_message example_boundary example_registry []))) =
     [''cpu'', ''cpu.load'',
      ''a.count'', ''a.one-minute'', ''a.five-minute'', ''a.fifteen-minute'', ''a.mean'',
      ''a.b.count'', ''a.b.one-minute'', ''a.b.five-minute'', ''a.b.fifteen-minute'',
      ''a.b.mean'',
      ''h.histogram.50-percentile'', ''h.histogram.75-percentile'',
      ''h.histogram.95-percentile'', ''h.histogram.99-percentile'',
      ''h.histogram.999-percentile'', ''h.histogram.mean'', ''h.histogram.std-dev'',
      ''h.histogram.count'', ''h.histogram.min'', ''h.histogram.max'']"
proof -
  have h1: "distinct (map fst example_registry)"
    by (simp add: example_registry_def)
  have h2: "\<forall>a\<in>set example_registry. \<forall>b\<in>set example_registry.
              fst b \<notin> set (reserved_names (fst a) (snd a) (snd b))"
    by (simp add: example_registry_def)
  have h3: "\<forall>n v. message_NewField example_boundary n v = None"
    by (simp add: example_boundary_def)
  have h4: "\<forall>e\<in>set example_registry. percentiles_complete (snd e)"
    by (simp add: example_registry_def)
  have d: "distinct (map Name (Fields (fst (make_message example_boundary example_registry []))))"
    using h1 h2 field_names_unique [of example_registry example_boundary "[]"] by blast
  have n: "map Name (Fields (fst (make_message example_boundary example_registry []))) =
     [''cpu'', ''cpu.load'',
      ''a.count'', ''a.one-minute'', ''a.five-minute'', ''a.fifteen-minute'', ''a.mean'',
      ''a.b.count'', ''a.b.one-minute'', ''a.b.five-minute'', ''a.b.fifteen-minute'',
      ''a.b.mean'',
      ''h.histogram.50-percentile'', ''h.histogram.75-percentile'',
      ''h.histogram.95-percentile'', ''h.histogram.99-percentile'',
      ''h.histogram.999-percentile'', ''h.histogram.mean'', ''h.histogram.std-dev'',
      ''h.histogram.count'', ''h.histogram.min'', ''h.histogram.max'']"
    by (simp add: make_message_Fields entry_fields_def example_registry_def
        example_boundary_def add_float_mapping_Fields NewInt64Field_def NewField_def
        AddField_def Let_def case_prod_beta)
  show ?thesis
    using h1 h2 h3 h4 d n by (simp only: list_all_iff) blast
qed

text \<open>
  Distinct metric names alone do not suffice: the meter \<open>a\<close> and the counter \<open>a.count\<close> both
  add a field \<open>a.count\<close>.
\<close>

theorem meter_count_clashes_with_counter:
  "distinct (map fst [(''a'', Meter \<lparr>m_Count = 5, m_Rate1 = 0, m_Rate5 = 0, m_Rate15 = 0,
                                      m_RateMean = (0 :: rat)\<rparr>),
                      (''a.count'', Counter 1)]) \<and>
   map Name (Fields (fst (make_message example_boundary
      [(''a'', Meter \<lparr>m_Count = 5, m_Rate1 = 0, m_Rate5 = 0, m_Rate15 = 0, m_RateMean = 0\<rparr>),
       (''a.count'', Counter 1)] []))) =
     [''a.count'', ''a.one-minute'', ''a.five-minute'', ''a.fifteen-minute'', ''a.mean'',
      ''a.count''] \<and>
   \<not> distinct (map Name (Fields (fst (make_message example_boundary
      [(''a'', Meter \<lparr>m_Count = 5, m_Rate1 = 0, m_Rate5 = 0, m_Rate15 = 0, m_RateMean = 0\<rparr>),
       (''a.count'', Counter 1)] []))))"
  by (simp add: make_message_def add_float_mapping_def NewField_def NewInt64Field_def
      AddField_def empty_Message_def example_boundary_def Let_def)

section \<open>Properties of the flush loop\<close>

text \<open>
  C2. When the stop channel is closed during the loop's first wait (by one call of \<^verbatim>\<open>Stop\<close>
  during the wait, or already before the loop started) and the \<^verbatim>\<open>select\<close> takes the stop
  case, the loop runs its body once and then returns: it encodes one message and makes at
  least one dial or send, and no later cycle of the schedule runs.
\<close>

theorem stop_before_first_interval:
  assumes "Stop_calls (stop_calls c) hc = Inr hc0" and "stop hc0 = ChanClosed"
    and "\<not> timer_chosen c"
  shows "LogHeka B (c # cs) hc tr = (Returned, snd (snd (flush B c [] hc0 tr))) \<and>
         encodes (snd (snd (LogHeka B (c # cs) hc tr))) = encodes tr + 1 \<and>
         dials tr + sends tr < dials (snd (snd (LogHeka B (c # cs) hc tr)))
                                + sends (snd (snd (LogHeka B (c # cs) hc tr)))"
proof -
  obtain u s1 hc1 tr1 where f: "flush B c [] hc0 tr = (Inr u, s1, hc1, tr1)"
    using flush_facts [of B c "[]" hc0 tr]
    by (cases "flush B c [] hc0 tr") auto
  have l: "LogHeka B (c # cs) hc tr = (Returned, hc1, tr1)"
    using assms f by (simp add: LogHeka_def chan_recv_def)
  show ?thesis
    using flush_facts [of B c "[]" hc0 tr] f l by simp
qed

theorem stop_before_first_interval_witness:
  "Stop_calls (stop_calls (example_cycle\<lparr>stop_calls := 1\<rparr>)) example_client
     = Inr (example_client\<lparr>stop := ChanClosed\<rparr>) \<and>
   stop (example_client\<lparr>stop := ChanClosed\<rparr>) = ChanClosed \<and>
   \<not> timer_chosen (example_cycle\<lparr>stop_calls := 1\<rparr>) \<and>
   LogHeka example_boundary [example_cycle\<lparr>stop_calls := 1\<rparr>] example_client [] =
     (Returned, snd (snd (flush example_boundary (example_cycle\<lparr>stop_calls := 1\<rparr>) []
                            (example_client\<lparr>stop := ChanClosed\<rparr>) []))) \<and>
   encodes (snd (snd (LogHeka example_boundary [example_cycle\<lparr>stop_calls := 1\<rparr>]
                        example_client []))) = encodes ([] :: rat event list) + 1"
proof -
  have h1: "Stop_calls (stop_calls (example_cycle\<lparr>stop_calls := 1\<rparr>)) example_client
     = Inr (example_client\<lparr>stop := ChanClosed\<rparr>)"
    by (simp add: Stop_def example_client_def)
  have h2: "stop (example_client\<lparr>stop := ChanClosed\<rparr>) = ChanClosed"
    by simp
  have h3: "\<not> timer_chosen (example_cycle\<lparr>stop_calls := 1\<rparr>)"
    by (simp add: example_cycle_def)
  show ?thesis
    using h1 h2 h3 stop_before_first_interval [OF h1 h2 h3, of example_boundary "[]" "[]"]
    by blast
qed

text \<open>
  The run on the example: stopped during its first wait, the loop encodes a message, connects
  and sends the bytes before it returns.
\<close>

theorem stop_then_flush_counterexample:
  "LogHeka example_boundary [example_cycle\<lparr>stop_calls := 1\<rparr>] example_client [] =
     (Returned,
      example_client\<lparr>stop := ChanClosed, sender := Some 0\<rparr>,
      [Encode \<lparr>Timestamp = Some 0, Uuid = [], Logger = Some ''go-metrics'',
               Type = Some ''teststats'', Pid = Some 1, Severity = Some 100,
               MsgHostname = Some ''host'', Payload = Some '''', Fields = []\<rparr>,
       Log (Connecting \<lparr>Scheme = ''tcp'', Host = ''localhost:5565''\<rparr>),
       Dial ''tcp'' ''localhost:5565'',
       Send 0 [1, 2, 3]])"
  by (simp add: LogHeka_def Stop_def chan_recv_def flush_def make_message_def
      HekaClient_write_def reconnect_def SendMessage_def Let_def empty_Message_def
      example_boundary_def example_client_def example_cycle_def)

text \<open>
  C3. Two cycles in which the timer fires, the registry empty in the first and holding one
  counter in the second, with an encoder that returns an error for a message with fields
  and leaves \<^verbatim>\<open>stream\<close> as it was: the second cycle logs the encode error and then sends
  the bytes of the first message again.
\<close>

theorem encode_error_still_sends:
  "LogHeka
     (example_boundary\<lparr>encoder_EncodeMessageStream :=
        (\<lambda>m s. if Fields m = [] then (None, [1, 2, 3])
                else (Some (External ''message too big''), s))\<rparr>)
     [example_cycle, example_cycle\<lparr>registry := [(''requests'', Counter 42)]\<rparr>]
     example_client [] =
     (Waiting,
      example_client\<lparr>sender := Some 0\<rparr>,
      [Encode \<lparr>Timestamp = Some 0, Uuid = [], Logger = Some ''go-metrics'',
               Type = Some ''teststats'', Pid = Some 1, Severity = Some 100,
               MsgHostname = Some ''host'', Payload = Some '''', Fields = []\<rparr>,
       Log (Connecting \<lparr>Scheme = ''tcp'', Host = ''localhost:5565''\<rparr>),
       Dial ''tcp'' ''localhost:5565'',
       Send 0 [1, 2, 3],
       Encode \<lparr>Timestamp = Some 0, Uuid = [], Logger = Some ''go-metrics'',
               Type = Some ''teststats'', Pid = Some 1, Severity = Some 100,
               MsgHostname = Some ''host'', Payload = Some '''',
               Fields = [\<lparr>Name = ''requests'', Representation = '''',
                          Value = ValueInteger 42\<rparr>]\<rparr>,
       Log (InjectEncodeError (External ''message too big'')),
       Send 0 [1, 2, 3]])"
  by (simp add: LogHeka_def Stop_def chan_recv_def flush_def make_message_def
      HekaClient_write_def reconnect_def SendMessage_def Let_def empty_Message_def
      NewInt64Field_def AddField_def
      example_boundary_def example_client_def example_cycle_def)

text \<open>
  C10. On a client whose stop channel is open, \<^verbatim>\<open>Stop\<close> closes the channel, after which the
  receive in the loop's \<^verbatim>\<open>select\<close> is ready with \<^verbatim>\<open>ok = false\<close>; \<^verbatim>\<open>Stop\<close> on the client
  with the closed channel panics, and so does any sequence of two or more calls. In the
  loop, after any number of cycles without a call of \<^verbatim>\<open>Stop\<close> and from any buffer, sender
  and trace: one call during the wait wakes the loop, which returns (when the \<^verbatim>\<open>select\<close>
  takes the stop case); two or more calls during one wait end in the panic of closing a
  closed channel; and so does any call during a wait that starts with the channel closed.
\<close>

theorem Stop_single_use:
  assumes "stop hc = ChanOpen" and "\<forall>c\<in>set pre. stop_calls c = 0"
  shows "Stop hc = Inr (hc\<lparr>stop := ChanClosed\<rparr>) \<and>
         chan_recv (stop (hc\<lparr>stop := ChanClosed\<rparr>)) = Some False \<and>
         Stop (hc\<lparr>stop := ChanClosed\<rparr>) = Inl CloseOfClosedChannel \<and>
         Stop_calls (Suc (Suc n)) hc = Inl CloseOfClosedChannel \<and>
         (stop_calls c = 1 \<and> \<not> timer_chosen c \<longrightarrow>
            fst (LogHeka_loop B (pre @ c # cs) stream hc tr) = Returned) \<and>
         (2 \<le> stop_calls c \<longrightarrow>
            fst (LogHeka_loop B (pre @ c # cs) stream hc tr) = Crashed CloseOfClosedChannel) \<and>
         (\<forall>hc' stream' tr'. stop hc' = ChanClosed \<and> 1 \<le> stop_calls c \<longrightarrow>
            fst (LogHeka_loop B (c # cs) stream' hc' tr') = Crashed CloseOfClosedChannel)"
proof -
  obtain stream1 hc1 tr1 where o: "stop hc1 = ChanOpen"
    and l: "LogHeka_loop B (pre @ c # cs) stream hc tr = LogHeka_loop B (c # cs) stream1 hc1 tr1"
    using LogHeka_loop_stop_free [OF assms, of B "c # cs" stream tr] by blast
  have 1: "Stop hc = Inr (hc\<lparr>stop := ChanClosed\<rparr>) \<and>
         chan_recv (stop (hc\<lparr>stop := ChanClosed\<rparr>)) = Some False \<and>
         Stop (hc\<lparr>stop := ChanClosed\<rparr>) = Inl CloseOfClosedChannel \<and>
         Stop_calls (Suc (Suc n)) hc = Inl CloseOfClosedChannel"
    using assms(1) by (simp add: Stop_def chan_recv_def)
  have 2: "fst (LogHeka_loop B (pre @ c # cs) stream hc tr) = Returned"
    if "stop_calls c = 1 \<and> \<not> timer_chosen c"
    using that LogHeka_loop_stop_returns [OF o, of c B cs stream1 tr1] l by simp
  have 3: "fst (LogHeka_loop B (pre @ c # cs) stream hc tr) = Crashed CloseOfClosedChannel"
    if "2 \<le> stop_calls c"
    using that LogHeka_loop_second_stop [OF o, of c B cs stream1 tr1] l by simp
  have 4: "fst (LogHeka_loop B (c # cs) stream' hc' tr') = Crashed CloseOfClosedChannel"
    if "stop hc' = ChanClosed \<and> 1 \<le> stop_calls c" for hc' stream' tr'
    using that LogHeka_loop_stop_on_closed [of hc' c B cs stream' tr'] by simp
  from 1 2 3 4 show ?thesis by blast
qed

theorem Stop_single_use_witness:
  "stop example_client = ChanOpen \<and>
   stop_calls example_cycle = 0 \<and>
   Stop example_client = Inr (example_client\<lparr>stop := ChanClosed\<rparr>) \<and>
   Stop (example_client\<lparr>stop := ChanClosed\<rparr>) = Inl CloseOfClosedChannel \<and>
   stop_calls (example_cycle\<lparr>stop_calls := 1\<rparr>) = 1 \<and>
   \<not> timer_chosen (example_cycle\<lparr>stop_calls := 1\<rparr>) \<and>
   fst (LogHeka_loop example_boundary
          ([example_cycle] @ example_cycle\<lparr>stop_calls := 1\<rparr> # []) [] example_client [])
     = Returned \<and>
   2 \<le> stop_calls (example_cycle\<lparr>stop_calls := 2\<rparr>) \<and>
   fst (LogHeka_loop example_boundary
          ([example_cycle] @ example_cycle\<lparr>stop_calls := 2\<rparr> # []) [] example_client [])
     = Crashed CloseOfClosedChannel"
proof -
  have h1: "stop example_client = ChanOpen"
    by (simp add: example_client_def)
  have h2: "\<forall>c\<in>set [example_cycle]. stop_calls c = 0"
    by (simp add: example_cycle_def)
  have h3: "stop_calls (example_cycle\<lparr>stop_calls := 1\<rparr>) = 1
            \<and> \<not> timer_chosen (example_cycle\<lparr>stop_calls := 1\<rparr>)"
    by (simp add: example_cycle_def)
  have h4: "2 \<le> stop_calls (example_cycle\<lparr>stop_calls := 2\<rparr>)"
    by simp
  show ?thesis
    using h1 h2 h3 h4
      Stop_single_use [OF h1 h2, of 0 "example_cycle\<lparr>stop_calls := 1\<rparr>" example_boundary
        "[]" "[]" "[]"]
      Stop_single_use [OF h1 h2, of 0 "example_cycle\<lparr>stop_calls := 2\<rparr>" example_boundary
        "[]" "[]" "[]"]
    by simp
qed

end
